theory Spec2Isabelle
  imports Main
begin

section \<open>The simulator of Fritzing: \<^verbatim>\<open>src/simulation/simulator.cpp\<close>\<close>

text \<open>
  The development embeds \<^verbatim>\<open>Simulator\<close>, the class that sends the circuit of a sketch to
  ngspice and marks the parts that work outside their specifications. The member
  functions that run a simulation are definitions below, under the names they have in
  the source; the timer, the switches of the simulator and the lines written to the
  console are left out. What the class calls in other classes (the ngspice wrapper,
  \<^verbatim>\<open>TextUtils\<close>, the scene items) is not in the file: the answers of those calls are
  fields of the record \<open>world\<close>, and the calls that change something outside the class
  are recorded, in order, in the field \<open>trace\<close> of the simulator's state.
\<close>

subsection \<open>The type \<^verbatim>\<open>double\<close>\<close>

text \<open>
  An IEEE 754 binary64 value: \<open>Finite s m e\<close> is \<open>(-1)^s * m * 2^e\<close> with
  \<open>0 \<le> m < 2^53\<close>, \<open>-1074 \<le> e \<le> 971\<close> and \<open>2^52 \<le> m\<close> unless \<open>e = -1074\<close>
  (so that every value has one representation, and \<open>Finite True 0 (-1074)\<close> is the
  negative zero); \<open>Infinity s\<close> is the infinity of sign \<open>s\<close>. Arithmetic computes the
  exact result and rounds it to the nearest value, ties to the even mantissa. A sum
  of two zeros is negative when both are; any other sum that is exactly zero is the
  positive zero.
\<close>

datatype double = Finite bool int int | Infinity bool | NaN

function bitLength :: "int \<Rightarrow> nat" where
  "bitLength n = (if n \<le> 0 then 0 else Suc (bitLength (n div 2)))"
  by pat_completeness auto
termination
  by (relation "measure nat") auto

declare bitLength.simps [simp del]

text \<open>\<open>floorLog2 n d\<close> is the integer part of the binary logarithm of \<open>n / d\<close>, for positive \<open>n\<close>, \<open>d\<close>.\<close>

definition floorLog2 :: "int \<Rightarrow> int \<Rightarrow> int" where
  "floorLog2 n d =
     (let t = int (bitLength n) - int (bitLength d)
      in if (if 0 \<le> t then d * 2 ^ nat t \<le> n else d \<le> n * 2 ^ nat (- t)) then t else t - 1)"

text \<open>
  \<open>roundToDouble s n d x\<close> rounds \<open>(-1)^s * (n / d) * 2^x\<close>, for \<open>0 \<le> n\<close> and \<open>0 < d\<close>:
  \<open>k\<close> is the exponent of the last bit of the result, \<open>N / D\<close> the magnitude in units of
  \<open>2^k\<close>, and a result of \<open>2^1024\<close> or more is an infinity.
\<close>

definition roundToDouble :: "bool \<Rightarrow> int \<Rightarrow> int \<Rightarrow> int \<Rightarrow> double" where
  "roundToDouble s n d x =
     (if n = 0 then Finite s 0 (- 1074)
      else
        let k = max (x + floorLog2 n d - 52) (- 1074);
            N = (if k \<le> x then n * 2 ^ nat (x - k) else n);
            D = (if k \<le> x then d else d * 2 ^ nat (k - x));
            q = N div D;
            r = N mod D;
            m = (if D < 2 * r \<or> (2 * r = D \<and> odd q) then q + 1 else q);
            m' = (if m = 2 ^ 53 then 2 ^ 52 else m);
            k' = (if m = 2 ^ 53 then k + 1 else k)
        in if 971 < k' then Infinity s else Finite s m' k')"

text \<open>The value of a finite double as an integer multiple of \<open>2^k\<close>, for \<open>k\<close> at most its exponent.\<close>

definition scaled :: "bool \<Rightarrow> int \<Rightarrow> int \<Rightarrow> int \<Rightarrow> int" where
  "scaled s m e k = (if s then - (m * 2 ^ nat (e - k)) else m * 2 ^ nat (e - k))"

fun isFinite :: "double \<Rightarrow> bool" where
  "isFinite (Finite s m e) = True"
| "isFinite (Infinity s) = False"
| "isFinite NaN = False"

fun dneg :: "double \<Rightarrow> double" where
  "dneg (Finite s m e) = Finite (\<not> s) m e"
| "dneg (Infinity s) = Infinity (\<not> s)"
| "dneg NaN = NaN"

text \<open>\<^verbatim>\<open>abs\<close> on a double (the overload of \<^verbatim>\<open><cmath>\<close>).\<close>

fun dabs :: "double \<Rightarrow> double" where
  "dabs (Finite s m e) = Finite False m e"
| "dabs (Infinity s) = Infinity False"
| "dabs NaN = NaN"

fun dadd :: "double \<Rightarrow> double \<Rightarrow> double" where
  "dadd NaN b = NaN"
| "dadd a NaN = NaN"
| "dadd (Infinity s) (Infinity t) = (if s = t then Infinity s else NaN)"
| "dadd (Infinity s) (Finite t m e) = Infinity s"
| "dadd (Finite s m e) (Infinity t) = Infinity t"
| "dadd (Finite s1 m1 e1) (Finite s2 m2 e2) =
     (if m1 = 0 \<and> m2 = 0 then Finite (s1 \<and> s2) 0 (- 1074)
      else if m2 = 0 then Finite s1 m1 e1
      else if m1 = 0 then Finite s2 m2 e2
      else
        let k = min e1 e2;
            z = scaled s1 m1 e1 k + scaled s2 m2 e2 k
        in if z = 0 then Finite False 0 (- 1074)
           else roundToDouble (z < 0) \<bar>z\<bar> 1 k)"

definition dsub :: "double \<Rightarrow> double \<Rightarrow> double" where
  "dsub a b = dadd a (dneg b)"

fun dmul :: "double \<Rightarrow> double \<Rightarrow> double" where
  "dmul NaN b = NaN"
| "dmul a NaN = NaN"
| "dmul (Infinity s) (Infinity t) = Infinity (s \<noteq> t)"
| "dmul (Infinity s) (Finite t m e) = (if m = 0 then NaN else Infinity (s \<noteq> t))"
| "dmul (Finite s m e) (Infinity t) = (if m = 0 then NaN else Infinity (s \<noteq> t))"
| "dmul (Finite s1 m1 e1) (Finite s2 m2 e2) = roundToDouble (s1 \<noteq> s2) (m1 * m2) 1 (e1 + e2)"

fun ddiv :: "double \<Rightarrow> double \<Rightarrow> double" where
  "ddiv NaN b = NaN"
| "ddiv a NaN = NaN"
| "ddiv (Infinity s) (Infinity t) = NaN"
| "ddiv (Infinity s) (Finite t m e) = Infinity (s \<noteq> t)"
| "ddiv (Finite s m e) (Infinity t) = Finite (s \<noteq> t) 0 (- 1074)"
| "ddiv (Finite s1 m1 e1) (Finite s2 m2 e2) =
     (if m2 = 0 then (if m1 = 0 then NaN else Infinity (s1 \<noteq> s2))
      else roundToDouble (s1 \<noteq> s2) m1 m2 (e1 - e2))"

text \<open>The comparisons \<^verbatim>\<open><\<close> and \<^verbatim>\<open><=\<close>; both are false when an operand is a NaN.\<close>

fun dless :: "double \<Rightarrow> double \<Rightarrow> bool" where
  "dless NaN b = False"
| "dless a NaN = False"
| "dless (Infinity s) (Infinity t) = (s \<and> \<not> t)"
| "dless (Infinity s) (Finite t m e) = s"
| "dless (Finite s m e) (Infinity t) = (\<not> t)"
| "dless (Finite s1 m1 e1) (Finite s2 m2 e2) =
     (scaled s1 m1 e1 (min e1 e2) < scaled s2 m2 e2 (min e1 e2))"

fun dlessEq :: "double \<Rightarrow> double \<Rightarrow> bool" where
  "dlessEq NaN b = False"
| "dlessEq a NaN = False"
| "dlessEq (Infinity s) (Infinity t) = (s \<or> \<not> t)"
| "dlessEq (Infinity s) (Finite t m e) = s"
| "dlessEq (Finite s m e) (Infinity t) = (\<not> t)"
| "dlessEq (Finite s1 m1 e1) (Finite s2 m2 e2) =
     (scaled s1 m1 e1 (min e1 e2) \<le> scaled s2 m2 e2 (min e1 e2))"

text \<open>\<^verbatim>\<open>a > b\<close> and \<^verbatim>\<open>a >= b\<close>.\<close>

definition dgreater :: "double \<Rightarrow> double \<Rightarrow> bool" where
  "dgreater a b = dless b a"

definition dgreaterEq :: "double \<Rightarrow> double \<Rightarrow> bool" where
  "dgreaterEq a b = dlessEq b a"

text \<open>
  A decimal literal \<open>n / d\<close> of the source is the double nearest to it; an \<^verbatim>\<open>int\<close>
  converts exactly.
\<close>

definition dlit :: "int \<Rightarrow> int \<Rightarrow> double" where
  "dlit n d = roundToDouble (n < 0) \<bar>n\<bar> d 0"

definition dzero :: double where
  "dzero = Finite False 0 (- 1074)"

text \<open>\<^verbatim>\<open>std::numeric_limits<double>::max()\<close>, the largest finite double, \<open>(2^53 - 1) * 2^971\<close>.\<close>

definition DBL_MAX :: double where
  "DBL_MAX = Finite False (2 ^ 53 - 1) 971"

subsection \<open>\<^verbatim>\<open>QString\<close>\<close>

text \<open>
  A \<^verbatim>\<open>QString\<close> is a \<open>string\<close>; its characters are the code points below 256
  (Latin-1). Every character the simulator compares with is one of them, but for the
  replacement character in the pattern of \<^verbatim>\<open>getMaxPropValue\<close>, which is noted there.
\<close>

definition upperCase :: string where
  "upperCase = ''ABCDEFGHIJKLMNOPQRSTUVWXYZ'' @
       [CHR 0xC0, CHR 0xC1, CHR 0xC2, CHR 0xC3, CHR 0xC4, CHR 0xC5, CHR 0xC6, CHR 0xC7,
        CHR 0xC8, CHR 0xC9, CHR 0xCA, CHR 0xCB, CHR 0xCC, CHR 0xCD, CHR 0xCE, CHR 0xCF,
        CHR 0xD0, CHR 0xD1, CHR 0xD2, CHR 0xD3, CHR 0xD4, CHR 0xD5, CHR 0xD6, CHR 0xD8,
        CHR 0xD9, CHR 0xDA, CHR 0xDB, CHR 0xDC, CHR 0xDD, CHR 0xDE]"

definition lowerCase :: string where
  "lowerCase = ''abcdefghijklmnopqrstuvwxyz'' @
       [CHR 0xE0, CHR 0xE1, CHR 0xE2, CHR 0xE3, CHR 0xE4, CHR 0xE5, CHR 0xE6, CHR 0xE7,
        CHR 0xE8, CHR 0xE9, CHR 0xEA, CHR 0xEB, CHR 0xEC, CHR 0xED, CHR 0xEE, CHR 0xEF,
        CHR 0xF0, CHR 0xF1, CHR 0xF2, CHR 0xF3, CHR 0xF4, CHR 0xF5, CHR 0xF6, CHR 0xF8,
        CHR 0xF9, CHR 0xFA, CHR 0xFB, CHR 0xFC, CHR 0xFD, CHR 0xFE]"

text \<open>\<^verbatim>\<open>QChar::toLower\<close>: the letters of \<open>upperCase\<close> go to those of \<open>lowerCase\<close>.\<close>

definition toLowerChar :: "char \<Rightarrow> char" where
  "toLowerChar c = (case map_of (zip upperCase lowerCase) c of None \<Rightarrow> c | Some l \<Rightarrow> l)"

definition toLower :: "string \<Rightarrow> string" where
  "toLower str = map toLowerChar str"

fun startsWith :: "string \<Rightarrow> string \<Rightarrow> bool" where
  "startsWith str [] = True"
| "startsWith [] (c # sub) = False"
| "startsWith (c # str) (c' # sub) = (c = c' \<and> startsWith str sub)"

text \<open>\<^verbatim>\<open>QString::indexOf\<close>: the position of the first occurrence, or \<open>-1\<close>.\<close>

fun indexOfFrom :: "string \<Rightarrow> string \<Rightarrow> int \<Rightarrow> int" where
  "indexOfFrom [] sub i = (if sub = [] then i else - 1)"
| "indexOfFrom (c # str) sub i =
     (if startsWith (c # str) sub then i else indexOfFrom str sub (i + 1))"

definition indexOf :: "string \<Rightarrow> string \<Rightarrow> int" where
  "indexOf str sub = indexOfFrom str sub 0"

definition contains :: "string \<Rightarrow> string \<Rightarrow> bool" where
  "contains str sub = (indexOf str sub \<noteq> - 1)"

text \<open>\<^verbatim>\<open>QString::arg\<close> on an \<^verbatim>\<open>int\<close>: the decimal digits, after the sign.\<close>

definition digitChar :: "nat \<Rightarrow> char" where
  "digitChar n = ''0123456789'' ! n"

function showNat :: "nat \<Rightarrow> string" where
  "showNat n = (if n < 10 then [digitChar n] else showNat (n div 10) @ [digitChar (n mod 10)])"
  by pat_completeness auto
termination
  by (relation "measure (\<lambda>n. n)") auto

declare showNat.simps [simp del]

definition showInt :: "int \<Rightarrow> string" where
  "showInt i = (if i < 0 then CHR ''-'' # showNat (nat (- i)) else showNat (nat i))"

subsection \<open>The data of a session\<close>

text \<open>
  A \<^verbatim>\<open>ConnectorItem *\<close> or \<^verbatim>\<open>ItemBase *\<close> is an object with an identity (its address,
  a \<open>nat\<close>) and the answers of the accessors the simulator calls on it. One record
  stands for every \<^verbatim>\<open>QGraphicsItem\<close> of a scene; \<open>classes\<close> lists the classes a
  \<^verbatim>\<open>dynamic_cast\<close> of the object succeeds for. \<open>propertyDefs\<close> holds the names and
  symbols that \<^verbatim>\<open>PropertyDefMaster::initPropertyDefs\<close> gives for the part, in the
  order in which the keys of the hash are visited.
\<close>

record connectorItem =
  connectorId :: nat
  connectorSharedName :: string
  connectorSharedDescription :: string
  connectedToWires :: bool

datatype itemClass =
    ItemBaseC | ConnectorItemC | WireC | PartLabelC | NoteC | LedLightC
  | SymbolPaletteItemC | ResizableBoardC | PerfboardC | BreadboardC | RulerC | LEDC

datatype view = BreadboardView | SchematicView | OtherView

record graphicsItem =
  itemId :: nat
  classes :: "itemClass list"
  viewID :: view
  instanceTitle :: string
  family :: string
  spice :: string
  getProperty :: "string \<Rightarrow> string"
  propertyDefs :: "(string \<times> string) list"
  cachedConnectorItems :: "connectorItem list"

definition dynamicCast :: "itemClass \<Rightarrow> graphicsItem \<Rightarrow> bool" where
  "dynamicCast c item = (c \<in> set (classes item))"

datatype transistorLeg = BASE | COLLECTOR | EMITER | OtherLeg int

text \<open>
  What ends a call early. The first five are the values the source throws; the last
  three stand for the undefined behaviour of reading a local pointer that was never
  assigned, of calling a member through a null pointer and of \<^verbatim>\<open>QString::at\<close> outside
  the string.
\<close>

datatype error =
    RuntimeError string
  | DeviceTypeError string string
  | CurrentError char
  | TransistorNameError string
  | TransistorLegError transistorLeg
  | UninitializedRead string
  | NullDereference string
  | IndexOutOfRange string

datatype overlay = SvgItem string | TextItem string

datatype graphicsEffect = NoEffect | GreyColorize

text \<open>The calls on the engine, on the items of the scenes and on the user interface.\<close>

datatype event =
    EngineInit
  | EngineClearLog
  | EngineCommand string
  | EngineLoadCircuit string
  | VecInfo string
  | SetGraphicsEffect nat graphicsEffect
  | AddSimulationGraphicsItem nat overlay
  | RemoveSimulationGraphicsItem nat
  | SetBrightness nat double
  | ResetBrightness nat
  | WarningBox string
  | SimulationStartedOrStopped bool
  | SimulationEnabled bool

text \<open>
  The collaborators of the simulator: the ngspice wrapper (\<open>engineIsNull\<close> to
  \<open>getVecInfo\<close>; \<open>isBGThreadRunning k\<close> is the answer to the call number \<open>k\<close>, from
  0), the result of \<^verbatim>\<open>MainWindow::getSpiceNetlist\<close> (the netlist, the nets as lists of
  connector identities, the parts in the order in which the set is visited), the
  items of the two scenes and the two conversions of \<^verbatim>\<open>TextUtils\<close>.
\<close>

record world =
  engineIsNull :: bool
  initThrows :: bool
  loadLogStdout :: string
  loadLogStderr :: string
  isBGThreadRunning :: "nat \<Rightarrow> bool"
  errorOccured :: bool
  runLogStdout :: string
  runLogStderr :: string
  getVecInfo :: "string \<Rightarrow> double list"
  spiceNetlist :: string
  netList :: "nat list list"
  itemBases :: "graphicsItem list"
  schematicItems :: "graphicsItem list"
  breadboardItems :: "graphicsItem list"
  convertFromPowerPrefix :: "string \<Rightarrow> string \<Rightarrow> double"
  convertToPowerPrefix :: "double \<Rightarrow> char \<Rightarrow> int \<Rightarrow> string"

text \<open>The members of \<^verbatim>\<open>Simulator\<close>, and the calls made so far.\<close>

record simulator =
  m_enabled :: bool
  m_simulating :: bool
  m_connector2netHash :: "nat \<rightharpoonup> int"
  m_sch2bbItemHash :: "nat \<rightharpoonup> graphicsItem"
  m_instanceTitleSim :: "string list"
  trace :: "event list"

subsection \<open>Sequencing\<close>

text \<open>
  A member function takes the state of the simulator and gives the state after it,
  with either its result (\<open>Inr\<close>) or what ended it early (\<open>Inl\<close>); what was ret
  before an exception stays in the state.
\<close>

type_synonym 'a sim = "simulator \<Rightarrow> (error + 'a) \<times> simulator"

definition ret :: "'a \<Rightarrow> 'a sim" where
  "ret x = (\<lambda>s. (Inr x, s))"

definition throw :: "error \<Rightarrow> 'a sim" where
  "throw e = (\<lambda>s. (Inl e, s))"

definition andThen :: "'a sim \<Rightarrow> ('a \<Rightarrow> 'b sim) \<Rightarrow> 'b sim" where
  "andThen m f = (\<lambda>s. case m s of (Inl e, s') \<Rightarrow> (Inl e, s') | (Inr x, s') \<Rightarrow> f x s')"

definition seq :: "unit sim \<Rightarrow> 'b sim \<Rightarrow> 'b sim" where
  "seq m n = andThen m (\<lambda>u. n)"

definition emit :: "event \<Rightarrow> unit sim" where
  "emit ev = (\<lambda>s. (Inr (), s\<lparr>trace := trace s @ [ev]\<rparr>))"

fun forEach :: "'a list \<Rightarrow> ('a \<Rightarrow> unit sim) \<Rightarrow> unit sim" where
  "forEach [] body = ret ()"
| "forEach (x # xs) body = seq (body x) (forEach xs body)"

text \<open>\<^verbatim>\<open>m_sch2bbItemHash.value(part)\<close>, a null pointer when the part has no entry.\<close>

definition sch2bb :: "graphicsItem \<Rightarrow> graphicsItem option sim" where
  "sch2bb part = (\<lambda>s. (Inr (m_sch2bbItemHash s (itemId part)), s))"

text \<open>A member call through a pointer.\<close>

definition deref :: "string \<Rightarrow> 'a option \<Rightarrow> 'a sim" where
  "deref what p = (case p of None \<Rightarrow> throw (NullDereference what) | Some x \<Rightarrow> ret x)"

text \<open>
  A local pointer variable: declared without a value, or holding a null pointer or an
  object. \<open>readPointer\<close> is the use of its value in a condition.
\<close>

datatype 'a pointer = Uninitialized | Null | PointsTo 'a

definition readPointer :: "string \<Rightarrow> 'a pointer \<Rightarrow> 'a option sim" where
  "readPointer name p =
     (case p of
        Uninitialized \<Rightarrow> throw (UninitializedRead name)
      | Null \<Rightarrow> ret None
      | PointsTo x \<Rightarrow> ret (Some x))"

text \<open>
  \<^verbatim>\<open>if (!p) return;\<close> before the rest of the function, which uses the object.
\<close>

definition unlessNull :: "string \<Rightarrow> 'a pointer \<Rightarrow> ('a \<Rightarrow> unit sim) \<Rightarrow> unit sim" where
  "unlessNull name p rest =
     andThen (readPointer name p) (\<lambda>v. case v of None \<Rightarrow> ret () | Some x \<Rightarrow> rest x)"

text \<open>
  The loops that look for a connector: every connector that matches is assigned to the
  variable, so the last one stays.
\<close>

definition assignMatching ::
  "(connectorItem \<Rightarrow> bool) \<Rightarrow> connectorItem list \<Rightarrow> connectorItem pointer \<Rightarrow> connectorItem pointer" where
  "assignMatching matches cis p = fold (\<lambda>ci q. if matches ci then PointsTo ci else q) cis p"

definition sharedNameIs :: "string \<Rightarrow> connectorItem \<Rightarrow> bool" where
  "sharedNameIs name ci = (toLower (connectorSharedName ci) = name)"

definition sharedDescriptionIs :: "string \<Rightarrow> string \<Rightarrow> connectorItem \<Rightarrow> bool" where
  "sharedDescriptionIs d1 d2 ci =
     (toLower (connectorSharedDescription ci) = d1 \<or> toLower (connectorSharedDescription ci) = d2)"

subsection \<open>The queries on the engine\<close>

definition getVectorValueOrDefault :: "world \<Rightarrow> string \<Rightarrow> double \<Rightarrow> double sim" where
  "getVectorValueOrDefault w vecName defaultValue =
     seq (emit (VecInfo vecName))
       (case getVecInfo w vecName of
          [] \<Rightarrow> ret defaultValue
        | v # vs \<Rightarrow> ret v)"

text \<open>\<^verbatim>\<open>m_connector2netHash.value(c)\<close>: the net of the connector, 0 when it has none.\<close>

definition netOf :: "simulator \<Rightarrow> connectorItem \<Rightarrow> int" where
  "netOf s c = (case m_connector2netHash s (connectorId c) of None \<Rightarrow> 0 | Some n \<Rightarrow> n)"

definition calculateVoltage :: "world \<Rightarrow> connectorItem \<Rightarrow> connectorItem \<Rightarrow> double sim" where
  "calculateVoltage w c0 c1 = (\<lambda>s.
     (let net0 = netOf s c0;
          net1 = netOf s c1;
          net0str = ''v('' @ showInt net0 @ '')'';
          net1str = ''v('' @ showInt net1 @ '')''
      in andThen (if net0 \<noteq> 0 then getVectorValueOrDefault w net0str dzero else ret dzero)
           (\<lambda>volt0.
         andThen (if net1 \<noteq> 0 then getVectorValueOrDefault w net1str dzero else ret dzero)
           (\<lambda>volt1.
         ret (dsub volt0 volt1)))) s)"

definition getSymbol :: "graphicsItem \<Rightarrow> string \<Rightarrow> string" where
  "getSymbol part property =
     (case filter (\<lambda>(name, symbol). toLower property = toLower name) (propertyDefs part) of
        [] \<Rightarrow> []
      | (name, symbol) # rest \<Rightarrow> symbol)"

definition getDeviceType :: "graphicsItem \<Rightarrow> char sim" where
  "getDeviceType part =
     (let index = indexOf (spice part) ''{instanceTitle}''
      in if 0 < index then ret (toLowerChar (spice part ! nat (index - 1)))
         else throw (DeviceTypeError (instanceTitle part) (spice part)))"

text \<open>
  The characters that the pattern \<^verbatim>\<open>[^pnu\x00B5mkMGT^\\d.]\<close> does not match, which
  \<^verbatim>\<open>QString::remove\<close> therefore keeps. The pattern is a narrow string literal, in which
  \<^verbatim>\<open>\x00B5\<close> is the single byte B5; \<^verbatim>\<open>QString\<close> reads a narrow literal as UTF-8, where
  that byte alone is not a character and becomes the replacement character U+FFFD. So
  the class holds p, n, u, U+FFFD, m, k, M, G, T, the caret, the digits and the point:
  the micro sign U+00B5 is not in it and is removed, and U+FFFD is not a character of
  the strings of this model.
\<close>

definition keptByPattern :: "char \<Rightarrow> bool" where
  "keptByPattern c = (c \<in> set (''pnu'' @ ''mkMGT^'' @ ''0123456789'' @ ''.''))"

definition getMaxPropValue :: "world \<Rightarrow> graphicsItem \<Rightarrow> string \<Rightarrow> double" where
  "getMaxPropValue w part property =
     (let propertyStr = getProperty part property;
          symbol = getSymbol part property
      in if propertyStr = [] then DBL_MAX
         else if symbol \<noteq> [] then convertFromPowerPrefix w propertyStr symbol
         else convertFromPowerPrefix w (filter keptByPattern propertyStr) symbol)"

definition getPower :: "world \<Rightarrow> graphicsItem \<Rightarrow> string \<Rightarrow> double sim" where
  "getPower w part subpartName =
     getVectorValueOrDefault w
       (''@'' @ toLower (instanceTitle part) @ toLower subpartName @ ''[p]'') dzero"

text \<open>\<^verbatim>\<open>str.at(0)\<close>.\<close>

definition firstChar :: "string \<Rightarrow> char sim" where
  "firstChar str = (case str of [] \<Rightarrow> throw (IndexOutOfRange str) | c # cs \<Rightarrow> ret c)"

definition getCurrent :: "world \<Rightarrow> graphicsItem \<Rightarrow> string \<Rightarrow> double sim" where
  "getCurrent w part subpartName =
     (let instanceStr = toLower (instanceTitle part) @ toLower subpartName
      in andThen (getDeviceType part) (\<lambda>deviceType.
         andThen (firstChar instanceStr) (\<lambda>c0.
         (let named = (if deviceType = c0 then ''@'' @ instanceStr
                       else ''@'' @ [deviceType] @ instanceStr)
          in if deviceType = CHR ''d''
             then getVectorValueOrDefault w (named @ ''[id]'') dzero
             else if deviceType \<in> set ''rclvefghi''
             then getVectorValueOrDefault w (named @ ''[i]'') dzero
             else throw (CurrentError deviceType)))))"

definition getTransistorCurrent :: "world \<Rightarrow> string \<Rightarrow> transistorLeg \<Rightarrow> double sim" where
  "getTransistorCurrent w spicePartName leg =
     andThen (firstChar spicePartName) (\<lambda>c0.
       if toLowerChar c0 \<noteq> CHR ''q'' then throw (TransistorNameError spicePartName)
       else (case leg of
               BASE \<Rightarrow> getVectorValueOrDefault w (''@'' @ spicePartName @ ''[ib]'') dzero
             | COLLECTOR \<Rightarrow> getVectorValueOrDefault w (''@'' @ spicePartName @ ''[ic]'') dzero
             | EMITER \<Rightarrow> getVectorValueOrDefault w (''@'' @ spicePartName @ ''[ie]'') dzero
             | OtherLeg n \<Rightarrow> throw (TransistorLegError leg)))"

subsection \<open>What the simulator puts on the parts\<close>

text \<open>
  An image or a text is created with the part as its parent and registered with
  \<^verbatim>\<open>addSimulationGraphicsItem\<close>; the event of the registration stands for both. The
  geometry of the items (position, scale, z value, opacity) is not part of the model.
\<close>

definition smokeImage :: string where
  "smokeImage = '':resources/images/smoke.svg''"

definition drawSmoke :: "graphicsItem \<Rightarrow> unit sim" where
  "drawSmoke part =
     andThen (sch2bb part) (\<lambda>bb.
     seq (emit (AddSimulationGraphicsItem (itemId part) (SvgItem smokeImage)))
       (andThen (deref ''m_sch2bbItemHash.value(part)'' bb) (\<lambda>bbPart.
        emit (AddSimulationGraphicsItem (itemId bbPart) (SvgItem smokeImage)))))"

text \<open>The overload of \<^verbatim>\<open>updateMultimeterScreen\<close> that takes the message.\<close>

definition updateMultimeterScreenMsg :: "graphicsItem \<Rightarrow> string \<Rightarrow> unit sim" where
  "updateMultimeterScreenMsg multimeter msg =
     (let aux = filter (\<lambda>c. c \<noteq> CHR ''.'') msg;
          padded = (if length aux < 5 then replicate (5 - length aux) CHR '' '' @ msg else msg)
      in andThen (sch2bb multimeter) (\<lambda>bb.
         andThen (deref ''m_sch2bbItemHash.value(multimeter)'' bb) (\<lambda>bbPart.
         seq (emit (AddSimulationGraphicsItem (itemId bbPart) (TextItem padded)))
           (emit (AddSimulationGraphicsItem (itemId multimeter) (TextItem padded))))))"

text \<open>The overload that takes the number.\<close>

definition updateMultimeterScreen :: "world \<Rightarrow> graphicsItem \<Rightarrow> double \<Rightarrow> unit sim" where
  "updateMultimeterScreen w multimeter number =
     (let shown = (if dless (dabs number) (dlit 1 1000000000000) then dzero else number);
          textToDisplay = convertToPowerPrefix w shown CHR ''f'' 6;
          indexPoint = indexOf textToDisplay ''.'';
          textToDisplay2 = convertToPowerPrefix w shown CHR ''f'' (4 - indexPoint)
      in updateMultimeterScreenMsg multimeter
           (map (\<lambda>c. if c = CHR ''k'' then CHR ''K'' else c) textToDisplay2))"

text \<open>The overload of \<^verbatim>\<open>removeSimItems\<close> that takes the list of items.\<close>

definition removeSimItemsOf :: "graphicsItem list \<Rightarrow> unit sim" where
  "removeSimItemsOf items =
     forEach items (\<lambda>item.
       seq (emit (SetGraphicsEffect (itemId item) NoEffect))
         (if dynamicCast ItemBaseC item
          then seq (emit (RemoveSimulationGraphicsItem (itemId item)))
                 (if viewID item = BreadboardView \<and> dynamicCast LEDC item
                  then emit (ResetBrightness (itemId item)) else ret ())
          else ret ()))"

definition removeSimItems :: "world \<Rightarrow> unit sim" where
  "removeSimItems w = seq (removeSimItemsOf (schematicItems w)) (removeSimItemsOf (breadboardItems w))"

definition greyOutParts :: "graphicsItem list \<Rightarrow> unit sim" where
  "greyOutParts parts = forEach parts (\<lambda>part. emit (SetGraphicsEffect (itemId part) GreyColorize))"

definition removeItemsToBeSimulated :: "graphicsItem list \<Rightarrow> graphicsItem list" where
  "removeItemsToBeSimulated parts =
     filter (\<lambda>part. \<not> list_ex (\<lambda>c. dynamicCast c part)
        [ConnectorItemC, WireC, PartLabelC, NoteC, LedLightC, SymbolPaletteItemC,
         ResizableBoardC, PerfboardC, BreadboardC, RulerC]) parts"

text \<open>\<^verbatim>\<open>QList::removeAll\<close> on a list of pointers.\<close>

definition removeAllItem :: "graphicsItem \<Rightarrow> graphicsItem list \<Rightarrow> graphicsItem list" where
  "removeAllItem item items = filter (\<lambda>i. itemId i \<noteq> itemId item) items"

text \<open>The first loop of \<^verbatim>\<open>greyOutNonSimParts\<close>, over the parts that are simulated.\<close>

fun removeSimParts ::
  "graphicsItem list \<Rightarrow> graphicsItem list \<Rightarrow> graphicsItem list \<Rightarrow> (graphicsItem list \<times> graphicsItem list) sim" where
  "removeSimParts [] noSimSchParts noSimBbParts = ret (noSimSchParts, noSimBbParts)"
| "removeSimParts (part # simParts) noSimSchParts noSimBbParts =
     andThen (sch2bb part) (\<lambda>bb.
     andThen (deref ''m_sch2bbItemHash.value(part)'' bb) (\<lambda>bbPart.
       removeSimParts simParts (removeAllItem part noSimSchParts) (removeAllItem bbPart noSimBbParts)))"

definition greyOutNonSimParts :: "world \<Rightarrow> graphicsItem list \<Rightarrow> unit sim" where
  "greyOutNonSimParts w simParts =
     andThen (removeSimParts simParts (schematicItems w) (breadboardItems w))
       (\<lambda>(noSimSchParts, noSimBbParts).
          seq (greyOutParts (removeItemsToBeSimulated noSimSchParts))
            (greyOutParts (removeItemsToBeSimulated noSimBbParts)))"

subsection \<open>The update functions of the parts\<close>

definition updateDiode :: "world \<Rightarrow> graphicsItem \<Rightarrow> unit sim" where
  "updateDiode w diode =
     (let maxPower = getMaxPropValue w diode ''power''
      in andThen (getPower w diode []) (\<lambda>power.
         if dgreater power maxPower then drawSmoke diode else ret ()))"

text \<open>\<^verbatim>\<open>dynamic_cast<LED *>\<close> of a pointer that may be null.\<close>

definition castToLED :: "graphicsItem option \<Rightarrow> graphicsItem option" where
  "castToLED p = (case p of None \<Rightarrow> None | Some item \<Rightarrow> if dynamicCast LEDC item then Some item else None)"

definition updateLED :: "world \<Rightarrow> graphicsItem \<Rightarrow> unit sim" where
  "updateLED w part =
     (if dynamicCast LEDC part
      then andThen (getCurrent w part []) (\<lambda>curr.
           (let maxCurr = getMaxPropValue w part ''current''
            in andThen (sch2bb part) (\<lambda>bb.
               andThen (deref ''bbLed'' (castToLED bb)) (\<lambda>bbLed.
               seq (emit (SetBrightness (itemId bbLed) (ddiv curr maxCurr)))
                 (if dgreater curr maxCurr
                  then seq (drawSmoke part) (emit (SetBrightness (itemId bbLed) dzero))
                  else ret ())))))
      else ret ())"

definition updateCapacitor :: "world \<Rightarrow> graphicsItem \<Rightarrow> unit sim" where
  "updateCapacitor w part =
     (let family = toLower (getProperty part ''family'');
          legs = cachedConnectorItems part;
          posLeg = assignMatching (sharedNameIs ''+'') legs Uninitialized;
          negLeg = assignMatching (sharedNameIs ''-'') legs Uninitialized
      in unlessNull ''negLeg'' negLeg (\<lambda>negItem.
         unlessNull ''posLeg'' posLeg (\<lambda>posItem.
         (let maxV = getMaxPropValue w part ''voltage''
          in andThen (calculateVoltage w posItem negItem) (\<lambda>v.
             if contains family ''bidirectional''
             then (if dgreater (dabs v) maxV then drawSmoke part else ret ())
             else (if dgreater v (ddiv maxV (dlit 2 1)) \<or> dless v dzero
                   then drawSmoke part else ret ()))))))"

definition updateResistor :: "world \<Rightarrow> graphicsItem \<Rightarrow> unit sim" where
  "updateResistor w part =
     (let maxPower = getMaxPropValue w part ''power''
      in andThen (getPower w part []) (\<lambda>power.
         if dgreater power maxPower then drawSmoke part else ret ()))"

definition updatePotentiometer :: "world \<Rightarrow> graphicsItem \<Rightarrow> unit sim" where
  "updatePotentiometer w part =
     (let maxPower = getMaxPropValue w part ''power''
      in andThen (getPower w part ''A'') (\<lambda>powerA.
         andThen (getPower w part ''B'') (\<lambda>powerB.
         if dgreater (dadd powerA powerB) maxPower then drawSmoke part else ret ())))"

definition updateBattery :: "world \<Rightarrow> graphicsItem \<Rightarrow> unit sim" where
  "updateBattery w part =
     (let voltage = getMaxPropValue w part ''voltage'';
          resistance = getMaxPropValue w part ''internal resistance'';
          safetyMargin = dlit 1 10;
          maxCurrent = dmul (ddiv voltage resistance) safetyMargin
      in andThen (getCurrent w part []) (\<lambda>current.
         if dgreater (dabs current) maxCurrent then drawSmoke part else ret ()))"

definition updateIRSensor :: "world \<Rightarrow> graphicsItem \<Rightarrow> unit sim" where
  "updateIRSensor w part =
     (let maxV = getMaxPropValue w part ''voltage (max)'';
          minV = getMaxPropValue w part ''voltage (min)'';
          maxIout = getMaxPropValue w part ''max output current'';
          terminals = cachedConnectorItems part;
          vcc = assignMatching (sharedDescriptionIs ''vcc'' ''supply voltage'') terminals Uninitialized;
          gnd = assignMatching (sharedDescriptionIs ''gnd'' ''ground'') terminals Uninitialized;
          out = assignMatching (sharedDescriptionIs ''out'' ''output voltage'') terminals Uninitialized
      in unlessNull ''gnd'' gnd (\<lambda>gndItem.
         unlessNull ''vcc'' vcc (\<lambda>vccItem.
         unlessNull ''out'' out (\<lambda>outItem.
         andThen (calculateVoltage w vccItem gndItem) (\<lambda>v.
         andThen (if contains (family part) ''line sensor''
                  then getTransistorCurrent w (''q'' @ toLower (instanceTitle part)) COLLECTOR
                  else getCurrent w part ''a'') (\<lambda>i.
         if dgreater v maxV \<or> dless v dzero \<or> dgreater (dabs i) maxIout
         then drawSmoke part else ret ()))))))"

definition updateDcMotor :: "world \<Rightarrow> graphicsItem \<Rightarrow> unit sim" where
  "updateDcMotor w part =
     (let maxV = getMaxPropValue w part ''voltage (max)'';
          minV = getMaxPropValue w part ''voltage (min)'';
          probes = cachedConnectorItems part;
          terminal1 = assignMatching (sharedNameIs ''pin 1'') probes Uninitialized;
          terminal2 = assignMatching (sharedNameIs ''pin 2'') probes Uninitialized
      in unlessNull ''terminal1'' terminal1 (\<lambda>t1.
         unlessNull ''terminal2'' terminal2 (\<lambda>t2.
         andThen (calculateVoltage w t1 t2) (\<lambda>v.
         if dgreater (dabs v) maxV then drawSmoke part
         else if dgreaterEq (dabs v) minV
         then (let image = (if dgreater v dzero then '':resources/images/rotateCW.svg''
                            else '':resources/images/rotateCCW.svg'')
               in andThen (sch2bb part) (\<lambda>bb.
                  seq (emit (AddSimulationGraphicsItem (itemId part) (SvgItem image)))
                    (andThen (deref ''m_sch2bbItemHash.value(part)'' bb) (\<lambda>bbPart.
                     emit (AddSimulationGraphicsItem (itemId bbPart) (SvgItem image))))))
         else ret ()))))"

definition updateMultimeter :: "world \<Rightarrow> graphicsItem \<Rightarrow> unit sim" where
  "updateMultimeter w part =
     (let variant = toLower (getProperty part ''variant'');
          probes = cachedConnectorItems part;
          comProbe = assignMatching (sharedNameIs ''com probe'') probes Null;
          vProbe = assignMatching (sharedNameIs ''v probe'') probes Null;
          aProbe = assignMatching (sharedNameIs ''a probe'') probes Null
      in unlessNull ''comProbe'' comProbe (\<lambda>com.
         unlessNull ''vProbe'' vProbe (\<lambda>vp.
         unlessNull ''aProbe'' aProbe (\<lambda>ap.
         if connectedToWires com \<and> connectedToWires vp \<and> connectedToWires ap
         then updateMultimeterScreenMsg part ''ERR''
         else if variant = ''voltmeter (dc)''
         then (if connectedToWires ap then updateMultimeterScreenMsg part ''ERR''
               else if connectedToWires com \<and> connectedToWires vp
               then andThen (calculateVoltage w vp com) (updateMultimeterScreen w part)
               else ret ())
         else if variant = ''ammeter (dc)''
         then (if connectedToWires vp then updateMultimeterScreenMsg part ''ERR''
               else andThen (getCurrent w part []) (updateMultimeterScreen w part))
         else if variant = ''ohmmeter''
         then (if connectedToWires ap then updateMultimeterScreenMsg part ''ERR''
               else andThen (calculateVoltage w vp com) (\<lambda>v.
                    andThen (getCurrent w part []) (\<lambda>a.
                    updateMultimeterScreen w part (dabs (ddiv v a)))))
         else ret ()))))"

subsection \<open>\<^verbatim>\<open>Simulator::simulate\<close>\<close>

definition stopSimulation :: "world \<Rightarrow> unit sim" where
  "stopSimulation w =
     seq (\<lambda>s. (Inr (), s\<lparr>m_simulating := False\<rparr>))
       (seq (removeSimItems w) (emit (SimulationStartedOrStopped False)))"

text \<open>The hash table from the connectors to the index of their net in the list.\<close>

definition insertNet :: "nat \<times> nat list \<Rightarrow> (nat \<rightharpoonup> int) \<Rightarrow> (nat \<rightharpoonup> int)" where
  "insertNet = (\<lambda>(i, net) h. fold (\<lambda>ci h'. h'(ci \<mapsto> int i)) net h)"

definition connector2netHashOf :: "nat list list \<Rightarrow> (nat \<rightharpoonup> int)" where
  "connector2netHashOf nets = fold insertNet (enumerate 0 nets) Map.empty"

text \<open>
  The hash table from the parts of the schematic view to the items of the breadboard
  view that have the same title.
\<close>

definition insertCounterparts ::
  "graphicsItem list \<Rightarrow> graphicsItem \<Rightarrow> (nat \<rightharpoonup> graphicsItem) \<Rightarrow> (nat \<rightharpoonup> graphicsItem)" where
  "insertCounterparts bbItems schPart h =
     fold (\<lambda>bbItem h'.
             if dynamicCast ItemBaseC bbItem \<and> instanceTitle schPart = instanceTitle bbItem
             then h'(itemId schPart \<mapsto> bbItem) else h') bbItems h"

definition sch2bbItemHashOf :: "graphicsItem list \<Rightarrow> graphicsItem list \<Rightarrow> (nat \<rightharpoonup> graphicsItem)" where
  "sch2bbItemHashOf schParts bbItems = fold (insertCounterparts bbItems) schParts Map.empty"

definition buildHashes :: "world \<Rightarrow> unit sim" where
  "buildHashes w = (\<lambda>s.
     (Inr (),
      s\<lparr>m_connector2netHash := connector2netHashOf (netList w),
        m_sch2bbItemHash := sch2bbItemHashOf (itemBases w) (breadboardItems w),
        m_instanceTitleSim := m_instanceTitleSim s @ map instanceTitle (itemBases w)\<rparr>))"

text \<open>
  The wait for the thread of ngspice: \<open>elapsedTime\<close> counts the sleeps of 1000
  microseconds, and is also the number of calls of \<^verbatim>\<open>isBGThreadRunning\<close> made before.
\<close>

definition simTimeOut :: nat where
  "simTimeOut = 3000"

function waitForSimulator :: "world \<Rightarrow> nat \<Rightarrow> nat" where
  "waitForSimulator w elapsedTime =
     (if isBGThreadRunning w elapsedTime \<and> elapsedTime < simTimeOut
      then waitForSimulator w (elapsedTime + 1) else elapsedTime)"
  by pat_completeness auto
termination
  by (relation "measure (\<lambda>(w, elapsedTime). simTimeOut - elapsedTime)") auto

declare waitForSimulator.simps [simp del]

definition newline :: string where
  "newline = [CHR 0x0A]"

definition loadErrorMessage :: "world \<Rightarrow> string" where
  "loadErrorMessage w =
     ''The simulator gave an error when loading the netlist. '' @
     ''Probably some SPICE field is wrong, please, check them.'' @ newline @
     ''If the parts are from the simulation bin, report the bug in GitHub.'' @
     newline @ newline @ ''Errors:'' @ newline @
     loadLogStdout w @ loadLogStderr w @
     newline @ newline @ ''Netlist:'' @ newline @ spiceNetlist w"

definition fatalErrorMessage :: "world \<Rightarrow> string" where
  "fatalErrorMessage w =
     ''The simulator gave an error when trying to simulate this circuit. '' @
     ''Please, check the wiring and try again. '' @
     newline @ newline @ ''Errors:'' @ newline @
     runLogStdout w @ runLogStderr w @
     newline @ newline @ ''Netlist:'' @ newline @ spiceNetlist w"

definition timeoutMessage :: string where
  "timeoutMessage =
     ''The spice simulator did not finish after '' @ showInt (int simTimeOut) @
     '' ms. Aborting simulation.''"

definition noCircuitsLoaded :: string where
  "noCircuitsLoaded = ''there aren'' @ [CHR 0x27] @ ''t any circuits loaded''"

text \<open>The body of the loop over the parts that are simulated.\<close>

definition updatePart :: "world \<Rightarrow> graphicsItem \<Rightarrow> unit sim" where
  "updatePart w part =
     seq (emit (SetGraphicsEffect (itemId part) NoEffect))
       (andThen (sch2bb part) (\<lambda>bb.
        andThen (deref ''m_sch2bbItemHash.value(part)'' bb) (\<lambda>bbPart.
        seq (emit (SetGraphicsEffect (itemId bbPart) NoEffect))
          (let family = toLower (family part)
           in if contains family ''capacitor'' then updateCapacitor w part
              else if contains family ''diode'' then updateDiode w part
              else if contains family ''led'' then updateLED w part
              else if contains family ''resistor'' then updateResistor w part
              else if contains family ''multimeter'' then updateMultimeter w part
              else if contains family ''dc motor'' then updateDcMotor w part
              else if contains family ''line sensor'' \<or> contains family ''distance sensor''
              then updateIRSensor w part
              else if contains family ''battery'' \<or> contains family ''voltage source''
              then updateBattery w part
              else if contains family ''potentiometer'' \<or> contains family ''sparkfun trimpot''
              then updatePotentiometer w part
              else ret ()))))"

text \<open>
  \<^verbatim>\<open>simulate\<close> is written in three parts, in the order of the source: what follows the
  wait for the engine, what follows the loading of the netlist, and the start of the
  function up to the loading. \<^verbatim>\<open>init\<close> is called through \<^verbatim>\<open>m_simulator\<close> before the
  pointer is tested, so the test that follows the call never finds a null pointer. An
  exception of \<^verbatim>\<open>init\<close> is caught; nothing else is.
\<close>

definition simulateAfterWait :: "world \<Rightarrow> unit sim" where
  "simulateAfterWait w =
     (if simTimeOut \<le> waitForSimulator w 0
      then seq (emit (EngineCommand ''bg_halt'')) (throw (RuntimeError timeoutMessage))
      else if errorOccured w \<or> contains (toLower (runLogStderr w)) noCircuitsLoaded
      then seq (removeSimItems w) (emit (WarningBox (fatalErrorMessage w)))
      else forEach (itemBases w) (updatePart w))"

definition simulateAfterLoad :: "world \<Rightarrow> unit sim" where
  "simulateAfterLoad w =
     seq (emit (EngineCommand ''listing''))
    (seq (emit (EngineCommand ''bg_run''))
    (seq (buildHashes w)
    (seq (removeSimItems w)
    (seq (greyOutNonSimParts w (itemBases w))
         (simulateAfterWait w)))))"

definition simulateLoad :: "world \<Rightarrow> unit sim" where
  "simulateLoad w =
     seq (emit EngineClearLog)
    (seq (emit (EngineCommand ''remcirc''))
    (seq (emit (EngineCommand ''reset''))
    (seq (emit EngineClearLog)
    (seq (emit (EngineLoadCircuit (spiceNetlist w)))
         (if contains (toLower (loadLogStdout w)) ''error'' \<or>
             contains (toLower (loadLogStderr w)) ''warning''
          then seq (emit (WarningBox (loadErrorMessage w))) (stopSimulation w)
          else simulateAfterLoad w)))))"

definition simulate :: "world \<Rightarrow> unit sim" where
  "simulate w = (\<lambda>s.
     if \<not> m_enabled s \<or> \<not> m_simulating s then ret () s
     else andThen (deref ''m_simulator'' (if engineIsNull w then None else Some ())) (\<lambda>engine.
            seq (emit EngineInit)
              (if initThrows w
               then seq (emit (WarningBox ''An error occurred when starting the simulation.''))
                      (stopSimulation w)
               else simulateLoad w)) s)"

text \<open>
  The items that carry the grey effect after the calls of a trace: the last
  \<^verbatim>\<open>setGraphicsEffect\<close> on an item decides.
\<close>

fun greyedAfter :: "event list \<Rightarrow> nat list \<Rightarrow> nat list" where
  "greyedAfter [] greyed = greyed"
| "greyedAfter (SetGraphicsEffect i GreyColorize # evs) greyed = greyedAfter evs (i # removeAll i greyed)"
| "greyedAfter (SetGraphicsEffect i NoEffect # evs) greyed = greyedAfter evs (removeAll i greyed)"
| "greyedAfter (ev # evs) greyed = greyedAfter evs greyed"

section \<open>Inputs for the worked cases\<close>

text \<open>
  A world in which the engine answers nothing, a simulator that was started, an item
  without data and a connector; the cases below change the fields they need.
\<close>

definition idleWorld :: world where
  "idleWorld =
     \<lparr>engineIsNull = False, initThrows = False, loadLogStdout = [], loadLogStderr = [],
      isBGThreadRunning = (\<lambda>k. False), errorOccured = False, runLogStdout = [],
      runLogStderr = [], getVecInfo = (\<lambda>name. []), spiceNetlist = [], netList = [],
      itemBases = [], schematicItems = [], breadboardItems = [],
      convertFromPowerPrefix = (\<lambda>txt symbol. NaN),
      convertToPowerPrefix = (\<lambda>number format precision. [])\<rparr>"

definition startState :: simulator where
  "startState =
     \<lparr>m_enabled = True, m_simulating = True, m_connector2netHash = Map.empty,
      m_sch2bbItemHash = Map.empty, m_instanceTitleSim = [], trace = []\<rparr>"

definition blankItem :: graphicsItem where
  "blankItem =
     \<lparr>itemId = 0, classes = [ItemBaseC], viewID = SchematicView, instanceTitle = [],
      family = [], spice = [], getProperty = (\<lambda>property. []), propertyDefs = [],
      cachedConnectorItems = []\<rparr>"

definition pin :: "nat \<Rightarrow> string \<Rightarrow> bool \<Rightarrow> connectorItem" where
  "pin i name wired =
     \<lparr>connectorId = i, connectorSharedName = name, connectorSharedDescription = name,
      connectedToWires = wired\<rparr>"

text \<open>Two pins on net 1.\<close>

definition twoPinsState :: simulator where
  "twoPinsState = startState\<lparr>m_connector2netHash := [11 \<mapsto> 1, 12 \<mapsto> 1]\<rparr>"

definition voltsOnNet1 :: "double \<Rightarrow> world" where
  "voltsOnNet1 v = idleWorld\<lparr>getVecInfo := (\<lambda>name. if name = ''v(1)'' then [v] else [])\<rparr>"

text \<open>A conversion that knows the texts of a table, for the ratings of the cases.\<close>

definition valueTable :: "(string \<times> double) list \<Rightarrow> string \<Rightarrow> string \<Rightarrow> double" where
  "valueTable table txt symbol = (case map_of table txt of None \<Rightarrow> NaN | Some v \<Rightarrow> v)"

definition resistorR1 :: graphicsItem where
  "resistorR1 = blankItem
     \<lparr>itemId := 21, instanceTitle := ''R1'', family := ''Resistor'',
      spice := ''R{instanceTitle} {net connector0} {net connector1} {resistance}'',
      getProperty := (\<lambda>property. if property = ''power'' then ''0.25W''
                                   else if property = ''tolerance'' then ''5%'' else []),
      propertyDefs := [(''Power'', ''W'')]\<rparr>"

definition ledLED1 :: graphicsItem where
  "ledLED1 = blankItem
     \<lparr>itemId := 31, classes := [ItemBaseC, LEDC], instanceTitle := ''LED1'',
      family := ''LED'',
      spice := ''D{instanceTitle} {net anode} {net cathode} LED_GENERIC'',
      getProperty := (\<lambda>property. if property = ''current'' then ''20mA'' else [])\<rparr>"

definition transistorQ1 :: graphicsItem where
  "transistorQ1 = blankItem
     \<lparr>itemId := 41, instanceTitle := ''Q1'', family := ''Transistor'',
      spice := ''Q{instanceTitle} {net collector} {net base} {net emitter} NPN''\<rparr>"

definition ratingsWorld :: world where
  "ratingsWorld = idleWorld
     \<lparr>convertFromPowerPrefix := valueTable [(''0.25W'', dlit 25 100), (''20m'', dlit 2 100), (''5'', dlit 5 1)]\<rparr>"

definition capacitorC1 :: graphicsItem where
  "capacitorC1 = blankItem
     \<lparr>itemId := 51, instanceTitle := ''C1'', family := ''Capacitor'',
      spice := ''C{instanceTitle} {net connector0} {net connector1} {capacitance}'',
      getProperty := (\<lambda>property. if property = ''family'' then ''Electrolytic Capacitor''
                                   else if property = ''voltage'' then ''16V'' else []),
      propertyDefs := [(''voltage'', ''V'')],
      cachedConnectorItems := [pin 11 ''+'' True, pin 12 ''-'' True]\<rparr>"

definition ceramicC1 :: graphicsItem where
  "ceramicC1 = capacitorC1
     \<lparr>getProperty := (\<lambda>property. if property = ''family'' then ''Capacitor Bidirectional''
                                   else if property = ''voltage'' then ''16V'' else [])\<rparr>"

definition breadboardPart :: "nat \<Rightarrow> graphicsItem" where
  "breadboardPart i = blankItem\<lparr>itemId := i, viewID := BreadboardView\<rparr>"

text \<open>The negative pin on net 1, the positive pin on no net.\<close>

definition capacitorState :: simulator where
  "capacitorState = startState
     \<lparr>m_connector2netHash := [12 \<mapsto> 1], m_sch2bbItemHash := [51 \<mapsto> breadboardPart 52]\<rparr>"

definition halfVoltWorld :: world where
  "halfVoltWorld = (voltsOnNet1 (dlit 1 2))
     \<lparr>convertFromPowerPrefix := valueTable [(''16V'', dlit 16 1)]\<rparr>"

definition motorM1 :: graphicsItem where
  "motorM1 = blankItem
     \<lparr>itemId := 61, instanceTitle := ''M1'', family := ''DC Motor'',
      cachedConnectorItems := [pin 14 ''pin 2'' True]\<rparr>"

definition multimeterNoProbes :: graphicsItem where
  "multimeterNoProbes = blankItem
     \<lparr>itemId := 71, instanceTitle := ''VM1'', family := ''Multimeter'',
      cachedConnectorItems := [pin 15 ''COM probe'' True]\<rparr>"

definition ledState :: simulator where
  "ledState = startState
     \<lparr>m_sch2bbItemHash := [31 \<mapsto> (breadboardPart 32)\<lparr>classes := [ItemBaseC, LEDC]\<rparr>]\<rparr>"

definition ledWorld :: "double \<Rightarrow> world" where
  "ledWorld current = idleWorld
     \<lparr>getVecInfo := (\<lambda>name. if name = ''@dled1[id]'' then [current] else []),
      convertFromPowerPrefix := valueTable [(''20m'', dlit 2 100)]\<rparr>"

definition batteryVCC1 :: graphicsItem where
  "batteryVCC1 = blankItem
     \<lparr>itemId := 81, instanceTitle := ''VCC1'', family := ''Battery'',
      spice := ''V{instanceTitle} {net +} {net -} DC {voltage}'',
      getProperty := (\<lambda>property. if property = ''voltage'' then ''9V''
                                   else if property = ''internal resistance'' then ''1ohm'' else []),
      propertyDefs := [(''voltage'', ''V''), (''internal resistance'', ''ohm'')]\<rparr>"

definition batteryState :: simulator where
  "batteryState = startState\<lparr>m_sch2bbItemHash := [81 \<mapsto> breadboardPart 82]\<rparr>"

definition batteryWorld :: "double \<Rightarrow> world" where
  "batteryWorld current = idleWorld
     \<lparr>getVecInfo := (\<lambda>name. if name = ''@vcc1[i]'' then [current] else []),
      convertFromPowerPrefix := valueTable [(''9V'', dlit 9 1), (''1ohm'', dlit 1 1)]\<rparr>"

definition multimeterVM1 :: "bool \<Rightarrow> bool \<Rightarrow> bool \<Rightarrow> graphicsItem" where
  "multimeterVM1 comWired vWired aWired = blankItem
     \<lparr>itemId := 71, instanceTitle := ''VM1'', family := ''Multimeter'',
      getProperty := (\<lambda>property. if property = ''variant'' then ''Voltmeter (DC)'' else []),
      cachedConnectorItems :=
        [pin 15 ''COM probe'' comWired, pin 16 ''V probe'' vWired, pin 17 ''A probe'' aWired]\<rparr>"

text \<open>The probe V on net 1, the probe COM on no net.\<close>

definition multimeterState :: simulator where
  "multimeterState = startState
     \<lparr>m_connector2netHash := [16 \<mapsto> 1], m_sch2bbItemHash := [71 \<mapsto> breadboardPart 72]\<rparr>"

text \<open>Net 1 at 3.3 volts, and a conversion that prints 3.3 with the digits asked for.\<close>

definition multimeterWorld :: world where
  "multimeterWorld = (voltsOnNet1 (dlit 33 10))
     \<lparr>convertToPowerPrefix :=
        (\<lambda>number format precision. if precision = 6 then ''3.300000'' else take (nat precision + 2) ''3.300000'')\<rparr>"

definition strayPart :: graphicsItem where
  "strayPart = blankItem\<lparr>itemId := 91, instanceTitle := ''U1'', family := ''Microcontroller''\<rparr>"

definition breadboardR1 :: graphicsItem where
  "breadboardR1 = (breadboardPart 22)\<lparr>instanceTitle := ''R1''\<rparr>"

definition breadboardU1 :: graphicsItem where
  "breadboardU1 = (breadboardPart 92)\<lparr>instanceTitle := ''U1''\<rparr>"

definition breadboardLED1 :: graphicsItem where
  "breadboardLED1 = (breadboardPart 32)\<lparr>classes := [ItemBaseC, LEDC], instanceTitle := ''LED1''\<rparr>"

text \<open>
  A sketch with a resistor that is simulated and a part without a model, and an engine
  whose thread never stops.
\<close>

definition timeoutWorld :: world where
  "timeoutWorld = idleWorld
     \<lparr>isBGThreadRunning := (\<lambda>k. True),
      spiceNetlist := ''R1 1 0 220'',
      itemBases := [resistorR1],
      schematicItems := [resistorR1, strayPart],
      breadboardItems := [breadboardR1, breadboardU1]\<rparr>"

text \<open>An LED whose template has no \<^verbatim>\<open>{instanceTitle}\<close>.\<close>

definition brokenLED1 :: graphicsItem where
  "brokenLED1 = ledLED1\<lparr>spice := ''LED_GENERIC {net anode} {net cathode}''\<rparr>"

text \<open>
  A sketch with that LED and a resistor rated 0.25 W that dissipates 0.3 W; the set of
  the parts is visited in the order of the list.
\<close>

definition twoPartsWorld :: "graphicsItem list \<Rightarrow> world" where
  "twoPartsWorld parts = idleWorld
     \<lparr>getVecInfo := (\<lambda>name. if name = ''@r1[p]'' then [dlit 3 10] else []),
      spiceNetlist := ''R1 1 0 220'',
      itemBases := parts,
      schematicItems := [brokenLED1, resistorR1],
      breadboardItems := [breadboardLED1, breadboardR1],
      convertFromPowerPrefix := valueTable [(''0.25W'', dlit 25 100)]\<rparr>"

definition twoPartsState :: simulator where
  "twoPartsState = startState
     \<lparr>m_sch2bbItemHash := [31 \<mapsto> breadboardLED1, 21 \<mapsto> breadboardR1]\<rparr>"

section \<open>Properties\<close>

subsection \<open>Sequencing and evaluation\<close>

lemma ret_apply: "ret x s = (Inr x, s)"
  by (simp add: ret_def)

lemma throw_apply: "throw e s = (Inl e, s)"
  by (simp add: throw_def)

lemma emit_apply: "emit ev s = (Inr (), s\<lparr>trace := trace s @ [ev]\<rparr>)"
  by (simp add: emit_def)

lemma andThen_apply:
  "andThen m f s = (case m s of (Inl e, s') \<Rightarrow> (Inl e, s') | (Inr x, s') \<Rightarrow> f x s')"
  by (simp add: andThen_def)
lemma seq_apply:
  "seq m n s = (case m s of (Inl e, s') \<Rightarrow> (Inl e, s') | (Inr x, s') \<Rightarrow> n s')"
  by (simp add: seq_def andThen_def)

lemmas sim_simps = ret_apply throw_apply emit_apply andThen_apply seq_apply

text \<open>The equations that compute with doubles given by numerals.\<close>

lemmas double_eval = dlit_def roundToDouble_def floorLog2_def bitLength.simps scaled_def
  dsub_def dgreater_def dgreaterEq_def dzero_def DBL_MAX_def

lemma getVectorValueOrDefault_apply:
  "getVectorValueOrDefault w name d s =
     (Inr (case getVecInfo w name of [] \<Rightarrow> d | v # vs \<Rightarrow> v), s\<lparr>trace := trace s @ [VecInfo name]\<rparr>)"
  by (simp add: getVectorValueOrDefault_def sim_simps split: list.split)

lemma netOf_trace: "netOf (s\<lparr>trace := t\<rparr>) c = netOf s c"
  by (simp add: netOf_def)

lemma dsub_self: "isFinite x \<Longrightarrow> dsub x x = dzero"
  by (cases x) (simp_all add: dsub_def dzero_def scaled_def Let_def)

lemma dsub_self_NaN: "\<not> isFinite x \<Longrightarrow> dsub x x = NaN"
  by (cases x) (simp_all add: dsub_def)

lemma calculateVoltage_apply:
  "calculateVoltage w a b s =
     (Inr (dsub (if netOf s a = 0 then dzero
                 else case getVecInfo w (''v('' @ showInt (netOf s a) @ '')'') of [] \<Rightarrow> dzero | v # vs \<Rightarrow> v)
                (if netOf s b = 0 then dzero
                 else case getVecInfo w (''v('' @ showInt (netOf s b) @ '')'') of [] \<Rightarrow> dzero | v # vs \<Rightarrow> v)),
      s\<lparr>trace := trace s @ (if netOf s a = 0 then [] else [VecInfo (''v('' @ showInt (netOf s a) @ '')'')])
                          @ (if netOf s b = 0 then [] else [VecInfo (''v('' @ showInt (netOf s b) @ '')'')])\<rparr>)"
  by (simp add: calculateVoltage_def Let_def sim_simps getVectorValueOrDefault_apply netOf_trace)

lemma showInt_1: "showInt 1 = ''1''"
  by (simp add: showInt_def showNat.simps digitChar_def)

subsection \<open>The voltage between two connectors\<close>

text \<open>
  Claim C1, as amended. For every pair of connectors \<open>a\<close> and \<open>b\<close>,
  \<^verbatim>\<open>calculateVoltage(a, b)\<close> returns \<open>V(a) - V(b)\<close>: a connector whose net index is 0
  contributes the potential 0 and no call of the engine, and any other net contributes
  the first sample of the vector \<^verbatim>\<open>v(<net index>)\<close>, or 0.0 when the vector is empty; the
  engine is asked for exactly those vectors, in that order. For two connectors of the
  same net the result is exactly 0 when the potential of the net is finite, and a NaN
  when it is an infinity or a NaN.
\<close>

theorem calculateVoltage_difference:
  assumes Va: "Va = (if netOf s a = 0 then dzero
                 else case getVecInfo w (''v('' @ showInt (netOf s a) @ '')'') of [] \<Rightarrow> dzero | v # vs \<Rightarrow> v)"
      and Vb: "Vb = (if netOf s b = 0 then dzero
                 else case getVecInfo w (''v('' @ showInt (netOf s b) @ '')'') of [] \<Rightarrow> dzero | v # vs \<Rightarrow> v)"
  shows "fst (calculateVoltage w a b s) = Inr (dsub Va Vb) \<and>
         trace (snd (calculateVoltage w a b s)) =
           trace s @ (if netOf s a = 0 then [] else [VecInfo (''v('' @ showInt (netOf s a) @ '')'')])
                   @ (if netOf s b = 0 then [] else [VecInfo (''v('' @ showInt (netOf s b) @ '')'')]) \<and>
         (netOf s a = netOf s b \<longrightarrow> isFinite Va \<longrightarrow> fst (calculateVoltage w a b s) = Inr dzero) \<and>
         (netOf s a = netOf s b \<longrightarrow> \<not> isFinite Va \<longrightarrow> fst (calculateVoltage w a b s) = Inr NaN)"
proof -
  have res: "fst (calculateVoltage w a b s) = Inr (dsub Va Vb)"
    unfolding Va Vb by (simp add: calculateVoltage_apply)
  have tr: "trace (snd (calculateVoltage w a b s)) =
           trace s @ (if netOf s a = 0 then [] else [VecInfo (''v('' @ showInt (netOf s a) @ '')'')])
                   @ (if netOf s b = 0 then [] else [VecInfo (''v('' @ showInt (netOf s b) @ '')'')])"
    by (simp add: calculateVoltage_apply)
  have same: "Vb = Va" if "netOf s a = netOf s b"
    unfolding Va Vb using that by simp
  show ?thesis
    using res tr same by (auto simp: dsub_self dsub_self_NaN)
qed

text \<open>
  The theorem at two connectors of net 1, which is at 3.3 volts, and at a connector of
  net 1 and one without a net.
\<close>

theorem calculateVoltage_difference_witness:
  "fst (calculateVoltage (voltsOnNet1 (dlit 33 10)) (pin 11 ''+'' True) (pin 12 ''-'' True) twoPinsState)
     = Inr dzero \<and>
   fst (calculateVoltage (voltsOnNet1 (dlit 33 10)) (pin 11 ''+'' True) (pin 13 ''gnd'' True) twoPinsState)
     = Inr (dlit 33 10) \<and>
   trace (snd (calculateVoltage (voltsOnNet1 (dlit 33 10)) (pin 11 ''+'' True) (pin 13 ''gnd'' True) twoPinsState))
     = [VecInfo ''v(1)'']"
proof -
  have n1: "netOf twoPinsState (pin 11 ''+'' True) = 1"
    and n2: "netOf twoPinsState (pin 12 ''-'' True) = 1"
    and n3: "netOf twoPinsState (pin 13 ''gnd'' True) = 0"
    by (simp_all add: netOf_def twoPinsState_def startState_def pin_def)
  have v1: "getVecInfo (voltsOnNet1 (dlit 33 10)) ''v(1)'' = [dlit 33 10]"
    by (simp add: voltsOnNet1_def idleWorld_def)
  have fin: "isFinite (dlit 33 10)"
    by (simp add: double_eval)
  have sub0: "dsub (dlit 33 10) dzero = dlit 33 10"
    by (simp add: double_eval)
  have tr0: "trace twoPinsState = []"
    by (simp add: twoPinsState_def startState_def)
  note same = calculateVoltage_difference [where s = twoPinsState and a = "pin 11 ''+'' True"
        and b = "pin 12 ''-'' True" and w = "voltsOnNet1 (dlit 33 10)", OF refl refl]
  note other = calculateVoltage_difference [where s = twoPinsState and a = "pin 11 ''+'' True"
        and b = "pin 13 ''gnd'' True" and w = "voltsOnNet1 (dlit 33 10)", OF refl refl]
  have c1: "fst (calculateVoltage (voltsOnNet1 (dlit 33 10)) (pin 11 ''+'' True) (pin 12 ''-'' True) twoPinsState)
     = Inr dzero"
    using same [THEN conjunct2, THEN conjunct2, THEN conjunct1] by (simp add: n1 n2 v1 fin showInt_1)
  have c2: "fst (calculateVoltage (voltsOnNet1 (dlit 33 10)) (pin 11 ''+'' True) (pin 13 ''gnd'' True) twoPinsState)
     = Inr (dlit 33 10)"
    using other [THEN conjunct1] by (simp add: n1 n3 v1 sub0 showInt_1)
  have c3: "trace (snd (calculateVoltage (voltsOnNet1 (dlit 33 10)) (pin 11 ''+'' True) (pin 13 ''gnd'' True) twoPinsState))
     = [VecInfo ''v(1)'']"
    using other [THEN conjunct2, THEN conjunct1] by (simp add: n1 n3 tr0 showInt_1)
  show ?thesis
    using c1 c2 c3 by simp
qed

text \<open>
  Claim C1 as it is written fails when the engine gives an infinite sample for the net:
  the two connectors are on the same net and the voltage between them is a NaN.
\<close>

theorem calculateVoltage_same_net_counterexample:
  "netOf twoPinsState (pin 11 ''+'' True) = netOf twoPinsState (pin 12 ''-'' True) \<and>
   fst (calculateVoltage (voltsOnNet1 (Infinity False)) (pin 11 ''+'' True) (pin 12 ''-'' True) twoPinsState)
     = Inr NaN \<and> NaN \<noteq> dzero"
  by (simp add: calculateVoltage_apply netOf_def twoPinsState_def startState_def pin_def
        voltsOnNet1_def idleWorld_def showInt_1 dsub_def dzero_def)

subsection \<open>The rated maximum of a property\<close>

lemma filter_keptByPattern:
  "CHR ''^'' \<notin> set str \<Longrightarrow>
   filter keptByPattern str = filter (\<lambda>c. c \<in> set ''0123456789.pnumkMGT'') str"
  by (rule filter_cong) (auto simp: keptByPattern_def)

text \<open>
  Claim C3, as amended. For every part and property name, \<^verbatim>\<open>getMaxPropValue\<close> returns
  the largest finite double (\<^verbatim>\<open>std::numeric_limits<double>::max()\<close>, which is below
  the positive infinity) when the text of the property is empty. Otherwise it returns
  what \<^verbatim>\<open>convertFromPowerPrefix\<close> makes of the text and the symbol when the symbol
  of the property is known; when it is not known, and the text has neither a caret nor
  a micro sign, it returns what \<^verbatim>\<open>convertFromPowerPrefix\<close> makes of the text without the
  characters other than the digits, the decimal point and the prefix letters p, n, u,
  m, k, M, G and T.
\<close>

theorem getMaxPropValue_cases:
  "(getProperty part property = [] \<longrightarrow> getMaxPropValue w part property = DBL_MAX) \<and>
   isFinite DBL_MAX \<and> dless DBL_MAX (Infinity False) \<and>
   (getProperty part property \<noteq> [] \<longrightarrow> getSymbol part property \<noteq> [] \<longrightarrow>
      getMaxPropValue w part property =
        convertFromPowerPrefix w (getProperty part property) (getSymbol part property)) \<and>
   (getProperty part property \<noteq> [] \<longrightarrow> getSymbol part property = [] \<longrightarrow>
    CHR ''^'' \<notin> set (getProperty part property) \<longrightarrow>
    CHR 0xB5 \<notin> set (getProperty part property) \<longrightarrow>
      getMaxPropValue w part property =
        convertFromPowerPrefix w
          (filter (\<lambda>c. c \<in> set ''0123456789.pnumkMGT'') (getProperty part property)) [])"
  by (simp add: getMaxPropValue_def Let_def filter_keptByPattern DBL_MAX_def)

lemmas lower_eval = toLower_def toLowerChar_def upperCase_def lowerCase_def

text \<open>
  The theorem on a resistor and an LED: a property that is not set, a property with the
  symbol W, and two properties without a symbol, whose texts \<^verbatim>\<open>20mA\<close> and \<^verbatim>\<open>5%\<close>
  reach the conversion as \<^verbatim>\<open>20m\<close> and \<^verbatim>\<open>5\<close>.
\<close>

theorem getMaxPropValue_cases_witness:
  "getMaxPropValue ratingsWorld resistorR1 ''voltage'' = DBL_MAX \<and>
   getMaxPropValue ratingsWorld resistorR1 ''power'' = dlit 25 100 \<and>
   getMaxPropValue ratingsWorld ledLED1 ''current'' = dlit 2 100 \<and>
   getMaxPropValue ratingsWorld resistorR1 ''tolerance'' = dlit 5 1"
proof -
  have p: "getProperty resistorR1 ''voltage'' = []" "getProperty resistorR1 ''power'' = ''0.25W''"
    "getProperty ledLED1 ''current'' = ''20mA''" "getProperty resistorR1 ''tolerance'' = ''5%''"
    by (simp_all add: resistorR1_def ledLED1_def blankItem_def)
  have y: "getSymbol resistorR1 ''power'' = ''W''" "getSymbol ledLED1 ''current'' = []"
    "getSymbol resistorR1 ''tolerance'' = []"
    by (simp_all add: getSymbol_def resistorR1_def ledLED1_def blankItem_def lower_eval)
  have c: "convertFromPowerPrefix ratingsWorld = valueTable [(''0.25W'', dlit 25 100), (''20m'', dlit 2 100), (''5'', dlit 5 1)]"
    by (simp add: ratingsWorld_def idleWorld_def)
  note t1 = getMaxPropValue_cases [where part = resistorR1 and property = "''voltage''" and w = ratingsWorld]
  note t2 = getMaxPropValue_cases [where part = resistorR1 and property = "''power''" and w = ratingsWorld]
  note t3 = getMaxPropValue_cases [where part = ledLED1 and property = "''current''" and w = ratingsWorld]
  note t4 = getMaxPropValue_cases [where part = resistorR1 and property = "''tolerance''" and w = ratingsWorld]
  have c1: "getMaxPropValue ratingsWorld resistorR1 ''voltage'' = DBL_MAX"
    using t1 [THEN conjunct1] by (simp add: p)
  have c2: "getMaxPropValue ratingsWorld resistorR1 ''power'' = dlit 25 100"
    using t2 [THEN conjunct2, THEN conjunct2, THEN conjunct2, THEN conjunct1]
    by (simp add: p y c valueTable_def)
  have c3: "getMaxPropValue ratingsWorld ledLED1 ''current'' = dlit 2 100"
    using t3 [THEN conjunct2, THEN conjunct2, THEN conjunct2, THEN conjunct2]
    by (simp add: p y c valueTable_def)
  have c4: "getMaxPropValue ratingsWorld resistorR1 ''tolerance'' = dlit 5 1"
    using t4 [THEN conjunct2, THEN conjunct2, THEN conjunct2, THEN conjunct2]
    by (simp add: p y c valueTable_def)
  show ?thesis
    using c1 c2 c3 c4 by simp
qed

text \<open>
  Claim C3 as it is written fails for a property that is not set: the result is the
  finite double \<open>(2^53 - 1) * 2^971\<close>, not the positive infinity.
\<close>

theorem getMaxPropValue_unset_counterexample:
  "getProperty resistorR1 ''voltage'' = [] \<and>
   getMaxPropValue ratingsWorld resistorR1 ''voltage'' \<noteq> Infinity False \<and>
   getMaxPropValue ratingsWorld resistorR1 ''voltage'' = Finite False 9007199254740991 971"
  by (simp add: getMaxPropValue_def resistorR1_def blankItem_def DBL_MAX_def)

subsection \<open>The current through a part\<close>

lemma getDeviceType_state: "snd (getDeviceType part s) = s"
  by (simp add: getDeviceType_def Let_def sim_simps)

lemma getDeviceType_pair: "fst (getDeviceType part s) = r \<Longrightarrow> getDeviceType part s = (r, s)"
  using getDeviceType_state [of part s] by (cases "getDeviceType part s") simp

lemma getCurrent_apply:
  assumes t: "fst (getDeviceType part s) = Inr t"
      and name: "name = toLower (instanceTitle part) @ toLower subpartName"
      and nonempty: "name \<noteq> []"
      and signal: "signal = ''@'' @ (if t = hd name then [] else [t]) @ name"
  shows "(t = CHR ''d'' \<longrightarrow>
            getCurrent w part subpartName s =
              (Inr (case getVecInfo w (signal @ ''[id]'') of [] \<Rightarrow> dzero | v # vs \<Rightarrow> v),
               s\<lparr>trace := trace s @ [VecInfo (signal @ ''[id]'')]\<rparr>)) \<and>
         (t \<in> set ''rclvefghi'' \<longrightarrow>
            getCurrent w part subpartName s =
              (Inr (case getVecInfo w (signal @ ''[i]'') of [] \<Rightarrow> dzero | v # vs \<Rightarrow> v),
               s\<lparr>trace := trace s @ [VecInfo (signal @ ''[i]'')]\<rparr>)) \<and>
         (t \<notin> set ''drclvefghi'' \<longrightarrow>
            getCurrent w part subpartName s = (Inl (CurrentError t), s))"
proof -
  have dt: "getDeviceType part s = (Inr t, s)"
    using t by (rule getDeviceType_pair)
  obtain c cs where nm: "name = c # cs"
    using nonempty by (cases name) auto
  have cs: "toLower (instanceTitle part) @ toLower subpartName = c # cs"
    using nm name by simp
  have hd: "hd name = c"
    using nm by simp
  show ?thesis
    unfolding signal hd
    by (simp add: getCurrent_def Let_def andThen_apply dt firstChar_def cs name
          ret_apply throw_apply getVectorValueOrDefault_apply)
qed

text \<open>
  Claim C9. For every part whose template gives the type code \<open>t\<close> (the lower-case
  letter before \<^verbatim>\<open>{instanceTitle}\<close>), \<^verbatim>\<open>getCurrent\<close> asks the engine for the vector
  named by \<^verbatim>\<open>@\<close>, the letter \<open>t\<close> unless the name starts with it, the lower-case title
  and the lower-case subpart name, followed by \<^verbatim>\<open>[id]\<close> when \<open>t\<close> is d and by \<^verbatim>\<open>[i]\<close>
  when \<open>t\<close> is one of r, c, l, v, e, f, g, h, i; for every other letter it throws and
  asks nothing. The name of a part is not empty.
\<close>

theorem getCurrent_signal_suffix:
  assumes t: "fst (getDeviceType part s) = Inr t"
      and name: "name = toLower (instanceTitle part) @ toLower subpartName"
      and nonempty: "name \<noteq> []"
      and signal: "signal = ''@'' @ (if t = hd name then [] else [t]) @ name"
  shows "(t = CHR ''d'' \<longrightarrow>
            getCurrent w part subpartName s =
              (Inr (case getVecInfo w (signal @ ''[id]'') of [] \<Rightarrow> dzero | v # vs \<Rightarrow> v),
               s\<lparr>trace := trace s @ [VecInfo (signal @ ''[id]'')]\<rparr>)) \<and>
         (t \<in> set ''rclvefghi'' \<longrightarrow>
            getCurrent w part subpartName s =
              (Inr (case getVecInfo w (signal @ ''[i]'') of [] \<Rightarrow> dzero | v # vs \<Rightarrow> v),
               s\<lparr>trace := trace s @ [VecInfo (signal @ ''[i]'')]\<rparr>)) \<and>
         (t \<notin> set ''drclvefghi'' \<longrightarrow>
            getCurrent w part subpartName s = (Inl (CurrentError t), s))"
  using getCurrent_apply [OF t name nonempty signal] .

text \<open>
  The theorem on an LED (\<^verbatim>\<open>D{instanceTitle}\<close>, title LED1), on the subpart A of a
  resistor (\<^verbatim>\<open>R{instanceTitle}\<close>, title R1) and on a transistor (\<^verbatim>\<open>Q{instanceTitle}\<close>).
\<close>

theorem getCurrent_signal_suffix_witness:
  "getCurrent idleWorld ledLED1 [] startState =
     (Inr dzero, startState\<lparr>trace := [VecInfo ''@dled1[id]'']\<rparr>) \<and>
   getCurrent idleWorld resistorR1 ''A'' startState =
     (Inr dzero, startState\<lparr>trace := [VecInfo ''@r1a[i]'']\<rparr>) \<and>
   getCurrent idleWorld transistorQ1 [] startState = (Inl (CurrentError CHR ''q''), startState)"
proof -
  have d1: "fst (getDeviceType ledLED1 startState) = Inr CHR ''d''"
    and d2: "fst (getDeviceType resistorR1 startState) = Inr CHR ''r''"
    and d3: "fst (getDeviceType transistorQ1 startState) = Inr CHR ''q''"
    by (simp_all add: getDeviceType_def indexOf_def ledLED1_def resistorR1_def transistorQ1_def
          blankItem_def sim_simps lower_eval)
  have n1: "toLower (instanceTitle ledLED1) @ toLower [] = ''led1''"
    and n2: "toLower (instanceTitle resistorR1) @ toLower ''A'' = ''r1a''"
    and n3: "toLower (instanceTitle transistorQ1) @ toLower [] = ''q1''"
    by (simp_all add: ledLED1_def resistorR1_def transistorQ1_def blankItem_def lower_eval)
  have tr: "trace startState = []"
    by (simp add: startState_def)
  have v: "getVecInfo idleWorld = (\<lambda>name. [])"
    by (simp add: idleWorld_def)
  have c1: "getCurrent idleWorld ledLED1 [] startState =
     (Inr dzero, startState\<lparr>trace := [VecInfo ''@dled1[id]'']\<rparr>)"
    using getCurrent_signal_suffix [OF d1 n1 [symmetric] _ refl, of idleWorld, THEN conjunct1]
    by (simp add: tr v)
  have c2: "getCurrent idleWorld resistorR1 ''A'' startState =
     (Inr dzero, startState\<lparr>trace := [VecInfo ''@r1a[i]'']\<rparr>)"
    using getCurrent_signal_suffix [OF d2 n2 [symmetric] _ refl, of idleWorld, THEN conjunct2, THEN conjunct1]
    by (simp add: tr v)
  have c3: "getCurrent idleWorld transistorQ1 [] startState = (Inl (CurrentError CHR ''q''), startState)"
    using getCurrent_signal_suffix [OF d3 n3 [symmetric] _ refl, of idleWorld, THEN conjunct2, THEN conjunct2]
    by simp
  show ?thesis
    using c1 c2 c3 by simp
qed

subsection \<open>The update functions\<close>

lemma assignMatching_filter:
  "assignMatching matches cis p =
     (if filter matches cis = [] then p else PointsTo (last (filter matches cis)))"
  unfolding assignMatching_def
  by (induction cis arbitrary: p) auto

lemma unlessNull_PointsTo: "unlessNull name (PointsTo x) rest s = rest x s"
  by (simp add: unlessNull_def readPointer_def sim_simps)

lemma unlessNull_Uninitialized:
  "unlessNull name Uninitialized rest s = (Inl (UninitializedRead name), s)"
  by (simp add: unlessNull_def readPointer_def sim_simps)

lemma unlessNull_Null: "unlessNull name Null rest s = (Inr (), s)"
  by (simp add: unlessNull_def readPointer_def sim_simps)

lemmas unlessNull_simps = unlessNull_PointsTo unlessNull_Uninitialized unlessNull_Null

lemma drawSmoke_apply:
  "drawSmoke part s =
     (case m_sch2bbItemHash s (itemId part) of
        None \<Rightarrow> (Inl (NullDereference ''m_sch2bbItemHash.value(part)''),
                 s\<lparr>trace := trace s @ [AddSimulationGraphicsItem (itemId part) (SvgItem smokeImage)]\<rparr>)
      | Some bb \<Rightarrow> (Inr (),
                 s\<lparr>trace := trace s @ [AddSimulationGraphicsItem (itemId part) (SvgItem smokeImage),
                                        AddSimulationGraphicsItem (itemId bb) (SvgItem smokeImage)]\<rparr>))"
  by (simp add: drawSmoke_def sch2bb_def deref_def sim_simps split: option.split)

lemma drawSmoke_trace:
  "AddSimulationGraphicsItem (itemId part) (SvgItem smokeImage)
     \<in> set (drop (length (trace s)) (trace (snd (drawSmoke part s))))"
  by (simp add: drawSmoke_apply split: option.split)

lemma smoke_iff:
  "r = (if smoke then drawSmoke part s1 else (Inr (), s1)) \<Longrightarrow>
   (AddSimulationGraphicsItem (itemId part) (SvgItem smokeImage)
      \<in> set (drop (length (trace s1)) (trace (snd r)))) = smoke"
  by (simp add: drawSmoke_trace)

text \<open>
  Claim C6. For every capacitor that has a connector named \<^verbatim>\<open>+\<close> and one named \<^verbatim>\<open>-\<close>
  (the last of each name count), with \<open>maxV\<close> the rated voltage and \<open>v\<close> the voltage from
  \<^verbatim>\<open>+\<close> to \<^verbatim>\<open>-\<close>: \<^verbatim>\<open>drawSmoke\<close> is called, and the smoke image is added to the part,
  exactly when \<open>|v| > maxV\<close> if the family contains \<^verbatim>\<open>bidirectional\<close>, and exactly when
  \<open>v > maxV / 2\<close> or \<open>v < 0\<close> if it does not; so a negative voltage on a polarized
  capacitor always gives smoke.
\<close>

theorem updateCapacitor_smoke:
  assumes plus: "filter (sharedNameIs ''+'') (cachedConnectorItems part) \<noteq> []"
      and minus: "filter (sharedNameIs ''-'') (cachedConnectorItems part) \<noteq> []"
      and posLeg: "posLeg = last (filter (sharedNameIs ''+'') (cachedConnectorItems part))"
      and negLeg: "negLeg = last (filter (sharedNameIs ''-'') (cachedConnectorItems part))"
      and maxV: "maxV = getMaxPropValue w part ''voltage''"
      and v: "calculateVoltage w posLeg negLeg s = (Inr v, s1)"
      and smoke: "smoke = (if contains (toLower (getProperty part ''family'')) ''bidirectional''
                           then dgreater (dabs v) maxV
                           else dgreater v (ddiv maxV (dlit 2 1)) \<or> dless v dzero)"
  shows "updateCapacitor w part s = (if smoke then drawSmoke part s1 else (Inr (), s1)) \<and>
         (AddSimulationGraphicsItem (itemId part) (SvgItem smokeImage)
            \<in> set (drop (length (trace s1)) (trace (snd (updateCapacitor w part s)))) = smoke) \<and>
         (\<not> contains (toLower (getProperty part ''family'')) ''bidirectional'' \<longrightarrow> dless v dzero \<longrightarrow> smoke)"
proof -
  have eq: "updateCapacitor w part s = (if smoke then drawSmoke part s1 else (Inr (), s1))"
    using plus minus v
    by (simp add: updateCapacitor_def Let_def assignMatching_filter unlessNull_simps
          andThen_apply ret_apply posLeg [symmetric] negLeg [symmetric] maxV [symmetric] smoke)
  show ?thesis
    using eq smoke_iff [OF eq] smoke by simp
qed

text \<open>
  The theorem on a capacitor rated 16 V with -0.5 V across it: smoke when it is
  polarized, none when it is bidirectional.
\<close>

theorem updateCapacitor_smoke_witness:
  "trace (snd (updateCapacitor halfVoltWorld capacitorC1 capacitorState)) =
     [VecInfo ''v(1)'', AddSimulationGraphicsItem 51 (SvgItem smokeImage),
      AddSimulationGraphicsItem 52 (SvgItem smokeImage)] \<and>
   trace (snd (updateCapacitor halfVoltWorld ceramicC1 capacitorState)) = [VecInfo ''v(1)'']"
proof -
  let ?plus = "pin 11 ''+'' True" and ?minus = "pin 12 ''-'' True"
  let ?s1 = "capacitorState\<lparr>trace := [VecInfo ''v(1)'']\<rparr>"
  let ?v = "dsub dzero (dlit 1 2)"
  have legs: "cachedConnectorItems capacitorC1 = [?plus, ?minus]"
    "cachedConnectorItems ceramicC1 = [?plus, ?minus]"
    by (simp_all add: capacitorC1_def ceramicC1_def blankItem_def)
  have fp: "filter (sharedNameIs ''+'') [?plus, ?minus] = [?plus]"
    and fm: "filter (sharedNameIs ''-'') [?plus, ?minus] = [?minus]"
    by (simp_all add: sharedNameIs_def pin_def lower_eval)
  have hyp: "filter (sharedNameIs ''+'') (cachedConnectorItems capacitorC1) \<noteq> []"
    "filter (sharedNameIs ''-'') (cachedConnectorItems capacitorC1) \<noteq> []"
    "?plus = last (filter (sharedNameIs ''+'') (cachedConnectorItems capacitorC1))"
    "?minus = last (filter (sharedNameIs ''-'') (cachedConnectorItems capacitorC1))"
    "filter (sharedNameIs ''+'') (cachedConnectorItems ceramicC1) \<noteq> []"
    "filter (sharedNameIs ''-'') (cachedConnectorItems ceramicC1) \<noteq> []"
    "?plus = last (filter (sharedNameIs ''+'') (cachedConnectorItems ceramicC1))"
    "?minus = last (filter (sharedNameIs ''-'') (cachedConnectorItems ceramicC1))"
    by (simp_all only: legs fp fm) simp_all
  have v: "calculateVoltage halfVoltWorld ?plus ?minus capacitorState = (Inr ?v, ?s1)"
    by (simp add: calculateVoltage_apply netOf_def capacitorState_def startState_def pin_def
          halfVoltWorld_def voltsOnNet1_def idleWorld_def showInt_1)
  have maxV: "getMaxPropValue halfVoltWorld capacitorC1 ''voltage'' = dlit 16 1"
    "getMaxPropValue halfVoltWorld ceramicC1 ''voltage'' = dlit 16 1"
    by (simp_all add: getMaxPropValue_def getSymbol_def capacitorC1_def ceramicC1_def blankItem_def
          halfVoltWorld_def voltsOnNet1_def idleWorld_def valueTable_def lower_eval)
  have fam: "\<not> contains (toLower (getProperty capacitorC1 ''family'')) ''bidirectional''"
    "contains (toLower (getProperty ceramicC1 ''family'')) ''bidirectional''"
    by (simp_all add: capacitorC1_def ceramicC1_def blankItem_def contains_def indexOf_def lower_eval)
  have neg: "dless ?v dzero"
    by (simp add: double_eval)
  have small: "\<not> dgreater (dabs ?v) (dlit 16 1)"
    by (simp add: double_eval)
  have bb: "m_sch2bbItemHash capacitorState 51 = Some (breadboardPart 52)"
    by (simp add: capacitorState_def startState_def)
  have ids: "itemId capacitorC1 = 51" "itemId (breadboardPart 52) = 52"
    by (simp_all add: capacitorC1_def blankItem_def breadboardPart_def)
  have c1: "trace (snd (updateCapacitor halfVoltWorld capacitorC1 capacitorState)) =
     [VecInfo ''v(1)'', AddSimulationGraphicsItem 51 (SvgItem smokeImage),
      AddSimulationGraphicsItem 52 (SvgItem smokeImage)]"
    using updateCapacitor_smoke [OF hyp(1) hyp(2) hyp(3) hyp(4) refl v refl, THEN conjunct1]
    by (simp add: fam neg drawSmoke_apply bb ids)
  have c2: "trace (snd (updateCapacitor halfVoltWorld ceramicC1 capacitorState)) = [VecInfo ''v(1)'']"
    using updateCapacitor_smoke [OF hyp(5) hyp(6) hyp(7) hyp(8) refl v refl, THEN conjunct1]
    by (simp add: fam small maxV)
  show ?thesis
    using c1 c2 by simp
qed

text \<open>
  Claim C10 is not what the code does. \<^verbatim>\<open>updateCapacitor\<close> and \<^verbatim>\<open>updateDcMotor\<close> declare
  the pointers to the two connectors without a value, and test them after the loop: on
  a capacitor without \<^verbatim>\<open>-\<close>, on one without \<^verbatim>\<open>+\<close> and on a motor without
  \<^verbatim>\<open>pin 1\<close> the test reads a pointer that was never assigned. \<^verbatim>\<open>updateMultimeter\<close>
  starts its pointers at \<^verbatim>\<open>nullptr\<close>, and returns without a verdict when a probe is
  missing.
\<close>

theorem missing_role_pin_is_read_uninitialized:
  "updateCapacitor halfVoltWorld (capacitorC1\<lparr>cachedConnectorItems := [pin 11 ''+'' True]\<rparr>) capacitorState
     = (Inl (UninitializedRead ''negLeg''), capacitorState) \<and>
   updateCapacitor halfVoltWorld (capacitorC1\<lparr>cachedConnectorItems := [pin 12 ''-'' True]\<rparr>) capacitorState
     = (Inl (UninitializedRead ''posLeg''), capacitorState) \<and>
   updateDcMotor halfVoltWorld motorM1 capacitorState
     = (Inl (UninitializedRead ''terminal1''), capacitorState) \<and>
   updateMultimeter halfVoltWorld multimeterNoProbes capacitorState = (Inr (), capacitorState)"
  by (simp add: updateCapacitor_def updateDcMotor_def updateMultimeter_def Let_def
        assignMatching_filter unlessNull_simps sharedNameIs_def pin_def lower_eval
        capacitorC1_def motorM1_def multimeterNoProbes_def blankItem_def)

lemma getCurrent_hash:
  "getCurrent w part subpartName s = (r, s1) \<Longrightarrow> m_sch2bbItemHash s1 = m_sch2bbItemHash s"
  by (auto simp: getCurrent_def Let_def sim_simps getDeviceType_def firstChar_def
        getVectorValueOrDefault_apply split: if_splits list.splits)

text \<open>
  Claim C5. For every LED whose current \<open>current\<close> the engine gave, with \<open>maxCurr\<close> the
  rated current and the LED of the breadboard view as its counterpart, \<^verbatim>\<open>updateLED\<close>
  sets the brightness \<open>current / maxCurr\<close>, and exactly when \<open>current > maxCurr\<close> it then
  draws the smoke on both views and sets the brightness 0.
\<close>

theorem updateLED_brightness_and_smoke:
  assumes led: "dynamicCast LEDC part"
      and curr: "getCurrent w part [] s = (Inr current, s1)"
      and maxCurr: "maxCurr = getMaxPropValue w part ''current''"
      and bb: "m_sch2bbItemHash s (itemId part) = Some bbLed"
      and bbLed: "dynamicCast LEDC bbLed"
  shows "updateLED w part s =
           (Inr (),
            s1\<lparr>trace := trace s1 @
                 SetBrightness (itemId bbLed) (ddiv current maxCurr) #
                 (if dgreater current maxCurr
                  then [AddSimulationGraphicsItem (itemId part) (SvgItem smokeImage),
                        AddSimulationGraphicsItem (itemId bbLed) (SvgItem smokeImage),
                        SetBrightness (itemId bbLed) dzero]
                  else [])\<rparr>)"
proof -
  have bb1: "m_sch2bbItemHash s1 (itemId part) = Some bbLed"
    using getCurrent_hash [OF curr] bb by simp
  show ?thesis
    using led bbLed
    by (simp add: updateLED_def Let_def andThen_apply seq_apply curr sch2bb_def deref_def
          castToLED_def bb1 ret_apply emit_apply drawSmoke_apply maxCurr)
qed

text \<open>
  The theorem on an LED rated 0.02 A: at 0.025 A the smoke is drawn and the last
  brightness is 0; at 0.01 A the brightness is 0.5 and there is no smoke.
\<close>

theorem updateLED_brightness_and_smoke_witness:
  "trace (snd (updateLED (ledWorld (dlit 25 1000)) ledLED1 ledState)) =
     [VecInfo ''@dled1[id]'', SetBrightness 32 (ddiv (dlit 25 1000) (dlit 2 100)),
      AddSimulationGraphicsItem 31 (SvgItem smokeImage),
      AddSimulationGraphicsItem 32 (SvgItem smokeImage),
      SetBrightness 32 dzero] \<and>
   trace (snd (updateLED (ledWorld (dlit 1 100)) ledLED1 ledState)) =
     [VecInfo ''@dled1[id]'', SetBrightness 32 (dlit 1 2)]"
proof -
  let ?bb = "(breadboardPart 32)\<lparr>classes := [ItemBaseC, LEDC]\<rparr>"
  let ?s1 = "ledState\<lparr>trace := [VecInfo ''@dled1[id]'']\<rparr>"
  have led: "dynamicCast LEDC ledLED1" and bbLed: "dynamicCast LEDC ?bb"
    by (simp_all add: dynamicCast_def ledLED1_def blankItem_def breadboardPart_def)
  have bb: "m_sch2bbItemHash ledState (itemId ledLED1) = Some ?bb"
    by (simp add: ledState_def startState_def ledLED1_def blankItem_def)
  have dt: "fst (getDeviceType ledLED1 ledState) = Inr CHR ''d''"
    by (simp add: getDeviceType_def indexOf_def ledLED1_def blankItem_def sim_simps lower_eval)
  have nm: "''led1'' = toLower (instanceTitle ledLED1) @ toLower []"
    by (simp add: ledLED1_def blankItem_def lower_eval)
  have cur: "getCurrent (ledWorld c) ledLED1 [] ledState = (Inr c, ?s1)" for c
    using getCurrent_apply [OF dt nm _ refl, of "ledWorld c", THEN conjunct1]
    by (simp add: ledWorld_def idleWorld_def ledState_def startState_def)
  have maxCurr: "getMaxPropValue (ledWorld c) ledLED1 ''current'' = dlit 2 100" for c
    by (simp add: getMaxPropValue_def getSymbol_def ledLED1_def blankItem_def ledWorld_def
          idleWorld_def valueTable_def keptByPattern_def)
  have over: "dgreater (dlit 25 1000) (dlit 2 100)"
    and under: "\<not> dgreater (dlit 1 100) (dlit 2 100)"
    and half: "ddiv (dlit 1 100) (dlit 2 100) = dlit 1 2"
    by (simp_all add: double_eval)
  have ids: "itemId ledLED1 = 31" "itemId ?bb = 32"
    by (simp_all add: ledLED1_def blankItem_def breadboardPart_def)
  have c1: "trace (snd (updateLED (ledWorld (dlit 25 1000)) ledLED1 ledState)) =
     [VecInfo ''@dled1[id]'', SetBrightness 32 (ddiv (dlit 25 1000) (dlit 2 100)),
      AddSimulationGraphicsItem 31 (SvgItem smokeImage),
      AddSimulationGraphicsItem 32 (SvgItem smokeImage),
      SetBrightness 32 dzero]"
    using updateLED_brightness_and_smoke [OF led cur refl bb bbLed, of "dlit 25 1000"]
    by (simp add: maxCurr over ids)
  have c2: "trace (snd (updateLED (ledWorld (dlit 1 100)) ledLED1 ledState)) =
     [VecInfo ''@dled1[id]'', SetBrightness 32 (dlit 1 2)]"
    using updateLED_brightness_and_smoke [OF led cur refl bb bbLed, of "dlit 1 100"]
    by (simp add: maxCurr under half ids)
  show ?thesis
    using c1 c2 by simp
qed

text \<open>
  Claim C7. For every battery whose current the engine gave, the largest current it
  tolerates is \<open>voltage / resistance * 0.1\<close>, from the rated voltage and the internal
  resistance, and \<^verbatim>\<open>drawSmoke\<close> is called, so that the smoke image is added to the part,
  exactly when the absolute value of the current is greater than that.
\<close>

theorem updateBattery_short_circuit:
  assumes voltage: "voltage = getMaxPropValue w part ''voltage''"
      and resistance: "resistance = getMaxPropValue w part ''internal resistance''"
      and maxCurrent: "maxCurrent = dmul (ddiv voltage resistance) (dlit 1 10)"
      and current: "getCurrent w part [] s = (Inr current, s1)"
  shows "updateBattery w part s =
           (if dgreater (dabs current) maxCurrent then drawSmoke part s1 else (Inr (), s1)) \<and>
         (AddSimulationGraphicsItem (itemId part) (SvgItem smokeImage)
            \<in> set (drop (length (trace s1)) (trace (snd (updateBattery w part s))))
          = dgreater (dabs current) maxCurrent)"
proof -
  have eq: "updateBattery w part s =
           (if dgreater (dabs current) maxCurrent then drawSmoke part s1 else (Inr (), s1))"
    by (simp add: updateBattery_def Let_def andThen_apply current ret_apply
          voltage resistance maxCurrent)
  show ?thesis
    using eq smoke_iff [OF eq] by simp
qed

text \<open>
  The theorem on a battery of 9 V and 1 ohm: the bound is 0.9 A, a current of 1.0 A
  gives smoke and a current of 0.5 A does not.
\<close>

theorem updateBattery_short_circuit_witness:
  "dmul (ddiv (getMaxPropValue (batteryWorld (dlit 1 1)) batteryVCC1 ''voltage'')
              (getMaxPropValue (batteryWorld (dlit 1 1)) batteryVCC1 ''internal resistance''))
        (dlit 1 10) = dlit 9 10 \<and>
   trace (snd (updateBattery (batteryWorld (dlit 1 1)) batteryVCC1 batteryState)) =
     [VecInfo ''@vcc1[i]'', AddSimulationGraphicsItem 81 (SvgItem smokeImage),
      AddSimulationGraphicsItem 82 (SvgItem smokeImage)] \<and>
   trace (snd (updateBattery (batteryWorld (dlit 1 2)) batteryVCC1 batteryState)) =
     [VecInfo ''@vcc1[i]'']"
proof -
  let ?s1 = "batteryState\<lparr>trace := [VecInfo ''@vcc1[i]'']\<rparr>"
  have dt: "fst (getDeviceType batteryVCC1 batteryState) = Inr CHR ''v''"
    by (simp add: getDeviceType_def indexOf_def batteryVCC1_def blankItem_def sim_simps lower_eval)
  have nm: "''vcc1'' = toLower (instanceTitle batteryVCC1) @ toLower []"
    by (simp add: batteryVCC1_def blankItem_def lower_eval)
  have cur: "getCurrent (batteryWorld c) batteryVCC1 [] batteryState = (Inr c, ?s1)" for c
    using getCurrent_apply [OF dt nm _ refl, of "batteryWorld c", THEN conjunct2, THEN conjunct1]
    by (simp add: batteryWorld_def idleWorld_def batteryState_def startState_def)
  have volt: "getMaxPropValue (batteryWorld c) batteryVCC1 ''voltage'' = dlit 9 1"
    and res: "getMaxPropValue (batteryWorld c) batteryVCC1 ''internal resistance'' = dlit 1 1" for c
    by (simp_all add: getMaxPropValue_def getSymbol_def batteryVCC1_def blankItem_def batteryWorld_def
          idleWorld_def valueTable_def lower_eval)
  have bound: "dmul (ddiv (dlit 9 1) (dlit 1 1)) (dlit 1 10) = dlit 9 10"
    and over: "dgreater (dabs (dlit 1 1)) (dlit 9 10)"
    and under: "\<not> dgreater (dabs (dlit 1 2)) (dlit 9 10)"
    by (simp_all add: double_eval)
  have bb: "m_sch2bbItemHash batteryState 81 = Some (breadboardPart 82)"
    by (simp add: batteryState_def startState_def)
  have ids: "itemId batteryVCC1 = 81" "itemId (breadboardPart 82) = 82"
    by (simp_all add: batteryVCC1_def blankItem_def breadboardPart_def)
  have c1: "trace (snd (updateBattery (batteryWorld (dlit 1 1)) batteryVCC1 batteryState)) =
     [VecInfo ''@vcc1[i]'', AddSimulationGraphicsItem 81 (SvgItem smokeImage),
      AddSimulationGraphicsItem 82 (SvgItem smokeImage)]"
    using updateBattery_short_circuit [OF refl refl refl cur, of "dlit 1 1", THEN conjunct1]
    by (simp add: volt res bound over drawSmoke_apply bb ids)
  have c2: "trace (snd (updateBattery (batteryWorld (dlit 1 2)) batteryVCC1 batteryState)) =
     [VecInfo ''@vcc1[i]'']"
    using updateBattery_short_circuit [OF refl refl refl cur, of "dlit 1 2", THEN conjunct1]
    by (simp add: volt res bound under)
  show ?thesis
    using c1 c2 by (simp add: volt res bound)
qed

subsection \<open>The multimeter\<close>

lemma updateMultimeterScreenMsg_apply:
  "m_sch2bbItemHash s (itemId multimeter) = Some bb \<Longrightarrow>
   updateMultimeterScreenMsg multimeter msg s =
     (Inr (),
      s\<lparr>trace := trace s @
        [AddSimulationGraphicsItem (itemId bb)
           (TextItem (replicate (5 - length (filter (\<lambda>c. c \<noteq> CHR ''.'') msg)) CHR '' '' @ msg)),
         AddSimulationGraphicsItem (itemId multimeter)
           (TextItem (replicate (5 - length (filter (\<lambda>c. c \<noteq> CHR ''.'') msg)) CHR '' '' @ msg))]\<rparr>)"
  by (simp add: updateMultimeterScreenMsg_def Let_def sch2bb_def deref_def sim_simps)

lemma calculateVoltage_hash:
  "calculateVoltage w a b s = (r, s1) \<Longrightarrow> m_sch2bbItemHash s1 = m_sch2bbItemHash s"
  by (auto simp: calculateVoltage_apply)

text \<open>
  Claim C8. For every multimeter that has the connectors \<^verbatim>\<open>com probe\<close>, \<^verbatim>\<open>v probe\<close> and
  \<^verbatim>\<open>a probe\<close> (and a counterpart in the breadboard view, where the text is also put):
  when the three probes are wired the text is \<^verbatim>\<open>ERR\<close>, whatever the variant; in the
  variant \<^verbatim>\<open>voltmeter (dc)\<close> the text is \<^verbatim>\<open>ERR\<close> when the probe A is wired, and otherwise,
  when COM and V are wired, it is the voltage from V to COM as \<^verbatim>\<open>convertToPowerPrefix\<close>
  prints it (0 for an absolute value below 1e-12, \<open>4 - p\<close> digits when the point of
  the 6-digit form is at \<open>p\<close>, K for k). Every text is put on both views, padded on the
  left with spaces to 5 characters, the decimal point not counted: \<^verbatim>\<open>ERR\<close> has two
  spaces in front, and a reading printed \<^verbatim>\<open>3.300\<close> has one.
\<close>

theorem updateMultimeter_display:
  assumes com: "filter (sharedNameIs ''com probe'') (cachedConnectorItems part) \<noteq> []"
      and v: "filter (sharedNameIs ''v probe'') (cachedConnectorItems part) \<noteq> []"
      and a: "filter (sharedNameIs ''a probe'') (cachedConnectorItems part) \<noteq> []"
      and comProbe: "comProbe = last (filter (sharedNameIs ''com probe'') (cachedConnectorItems part))"
      and vProbe: "vProbe = last (filter (sharedNameIs ''v probe'') (cachedConnectorItems part))"
      and aProbe: "aProbe = last (filter (sharedNameIs ''a probe'') (cachedConnectorItems part))"
      and variant: "variant = toLower (getProperty part ''variant'')"
      and bb: "m_sch2bbItemHash s (itemId part) = Some bb"
      and volts: "calculateVoltage w vProbe comProbe s = (Inr volts, s1)"
      and shown: "shown = (if dless (dabs volts) (dlit 1 1000000000000) then dzero else volts)"
      and reading: "reading = map (\<lambda>c. if c = CHR ''k'' then CHR ''K'' else c)
                      (convertToPowerPrefix w shown CHR ''f''
                         (4 - indexOf (convertToPowerPrefix w shown CHR ''f'' 6) ''.''))"
      and padded: "padded = replicate (5 - length (filter (\<lambda>c. c \<noteq> CHR ''.'') reading)) CHR '' '' @ reading"
  shows "(connectedToWires comProbe \<and> connectedToWires vProbe \<and> connectedToWires aProbe \<longrightarrow>
            updateMultimeter w part s =
              (Inr (), s\<lparr>trace := trace s @
                 [AddSimulationGraphicsItem (itemId bb) (TextItem ''  ERR''),
                  AddSimulationGraphicsItem (itemId part) (TextItem ''  ERR'')]\<rparr>)) \<and>
         (variant = ''voltmeter (dc)'' \<and> connectedToWires aProbe \<longrightarrow>
            updateMultimeter w part s =
              (Inr (), s\<lparr>trace := trace s @
                 [AddSimulationGraphicsItem (itemId bb) (TextItem ''  ERR''),
                  AddSimulationGraphicsItem (itemId part) (TextItem ''  ERR'')]\<rparr>)) \<and>
         (variant = ''voltmeter (dc)'' \<and> \<not> connectedToWires aProbe \<and>
          connectedToWires comProbe \<and> connectedToWires vProbe \<longrightarrow>
            updateMultimeter w part s =
              (Inr (), s1\<lparr>trace := trace s1 @
                 [AddSimulationGraphicsItem (itemId bb) (TextItem padded),
                  AddSimulationGraphicsItem (itemId part) (TextItem padded)]\<rparr>) \<and>
            5 \<le> length (filter (\<lambda>c. c \<noteq> CHR ''.'') padded) \<and>
            (reading = ''3.300'' \<longrightarrow> padded = '' 3.300''))"
proof -
  have bb1: "m_sch2bbItemHash s1 (itemId part) = Some bb"
    using calculateVoltage_hash [OF volts] bb by simp
  have err: "updateMultimeterScreenMsg part ''ERR'' s =
              (Inr (), s\<lparr>trace := trace s @
                 [AddSimulationGraphicsItem (itemId bb) (TextItem ''  ERR''),
                  AddSimulationGraphicsItem (itemId part) (TextItem ''  ERR'')]\<rparr>)"
    using updateMultimeterScreenMsg_apply [OF bb, of "''ERR''"] by (simp add: numeral_eq_Suc)
  have num: "updateMultimeterScreen w part volts s1 =
              (Inr (), s1\<lparr>trace := trace s1 @
                 [AddSimulationGraphicsItem (itemId bb) (TextItem padded),
                  AddSimulationGraphicsItem (itemId part) (TextItem padded)]\<rparr>)"
    using updateMultimeterScreenMsg_apply [OF bb1, of reading]
    by (simp add: updateMultimeterScreen_def Let_def shown reading padded)
  have wide: "5 \<le> length (filter (\<lambda>c. c \<noteq> CHR ''.'') padded)"
    by (simp add: padded)
  have ex: "reading = ''3.300'' \<Longrightarrow> padded = '' 3.300''"
    by (simp add: padded numeral_eq_Suc)
  have steps: "updateMultimeter w part s =
         (if connectedToWires comProbe \<and> connectedToWires vProbe \<and> connectedToWires aProbe
          then updateMultimeterScreenMsg part ''ERR'' s
          else if variant = ''voltmeter (dc)''
          then (if connectedToWires aProbe then updateMultimeterScreenMsg part ''ERR'' s
                else if connectedToWires comProbe \<and> connectedToWires vProbe
                then updateMultimeterScreen w part volts s1
                else (Inr (), s))
          else updateMultimeter w part s)"
    using com v a
    by (simp add: updateMultimeter_def Let_def assignMatching_filter unlessNull_simps
          comProbe [symmetric] vProbe [symmetric] aProbe [symmetric] variant [symmetric]
          andThen_apply volts ret_apply)
  show ?thesis
    using steps err num wide ex by (auto split: if_splits)
qed

text \<open>
  The theorem on a voltmeter: the three probes wired, only the probe A wired, and COM
  and V wired with 3.3 volts between them.
\<close>

theorem updateMultimeter_display_witness:
  "trace (snd (updateMultimeter multimeterWorld (multimeterVM1 True True True) multimeterState)) =
     [AddSimulationGraphicsItem 72 (TextItem ''  ERR''), AddSimulationGraphicsItem 71 (TextItem ''  ERR'')] \<and>
   trace (snd (updateMultimeter multimeterWorld (multimeterVM1 False False True) multimeterState)) =
     [AddSimulationGraphicsItem 72 (TextItem ''  ERR''), AddSimulationGraphicsItem 71 (TextItem ''  ERR'')] \<and>
   trace (snd (updateMultimeter multimeterWorld (multimeterVM1 True True False) multimeterState)) =
     [VecInfo ''v(1)'', AddSimulationGraphicsItem 72 (TextItem '' 3.300''),
      AddSimulationGraphicsItem 71 (TextItem '' 3.300'')]"
proof -
  let ?s1 = "multimeterState\<lparr>trace := [VecInfo ''v(1)'']\<rparr>"
  have probes: "cachedConnectorItems (multimeterVM1 c v a) =
      [pin 15 ''COM probe'' c, pin 16 ''V probe'' v, pin 17 ''A probe'' a]" for c v a
    by (simp add: multimeterVM1_def blankItem_def)
  have fc: "filter (sharedNameIs ''com probe'') (cachedConnectorItems (multimeterVM1 c v a))
              = [pin 15 ''COM probe'' c]"
    and fv: "filter (sharedNameIs ''v probe'') (cachedConnectorItems (multimeterVM1 c v a))
              = [pin 16 ''V probe'' v]"
    and fa: "filter (sharedNameIs ''a probe'') (cachedConnectorItems (multimeterVM1 c v a))
              = [pin 17 ''A probe'' a]" for c v a
    by (simp_all add: probes sharedNameIs_def pin_def lower_eval)
  have ne: "filter (sharedNameIs ''com probe'') (cachedConnectorItems (multimeterVM1 c v a)) \<noteq> []"
    "filter (sharedNameIs ''v probe'') (cachedConnectorItems (multimeterVM1 c v a)) \<noteq> []"
    "filter (sharedNameIs ''a probe'') (cachedConnectorItems (multimeterVM1 c v a)) \<noteq> []" for c v a
    by (simp_all add: fc fv fa)
  have lasts: "pin 15 ''COM probe'' c = last (filter (sharedNameIs ''com probe'') (cachedConnectorItems (multimeterVM1 c v a)))"
    "pin 16 ''V probe'' v = last (filter (sharedNameIs ''v probe'') (cachedConnectorItems (multimeterVM1 c v a)))"
    "pin 17 ''A probe'' a = last (filter (sharedNameIs ''a probe'') (cachedConnectorItems (multimeterVM1 c v a)))" for c v a
    by (simp_all add: fc fv fa)
  have variant: "''voltmeter (dc)'' = toLower (getProperty (multimeterVM1 c v a) ''variant'')" for c v a
    by (simp add: multimeterVM1_def blankItem_def lower_eval)
  have bb: "m_sch2bbItemHash multimeterState (itemId (multimeterVM1 c v a)) = Some (breadboardPart 72)" for c v a
    by (simp add: multimeterState_def startState_def multimeterVM1_def blankItem_def)
  have volts: "calculateVoltage multimeterWorld (pin 16 ''V probe'' v) (pin 15 ''COM probe'' c) multimeterState
                 = (Inr (dlit 33 10), ?s1)" for c v
    by (simp add: calculateVoltage_apply netOf_def multimeterState_def startState_def pin_def
          multimeterWorld_def voltsOnNet1_def idleWorld_def showInt_1 double_eval)
  have big: "\<not> dless (dabs (dlit 33 10)) (dlit 1 1000000000000)"
    by (simp add: double_eval)
  have reading: "''3.300'' = map (\<lambda>c. if c = CHR ''k'' then CHR ''K'' else c)
                      (convertToPowerPrefix multimeterWorld (dlit 33 10) CHR ''f''
                         (4 - indexOf (convertToPowerPrefix multimeterWorld (dlit 33 10) CHR ''f'' 6) ''.''))"
    by (simp add: multimeterWorld_def voltsOnNet1_def idleWorld_def indexOf_def)
  have shown: "dlit 33 10 = (if dless (dabs (dlit 33 10)) (dlit 1 1000000000000) then dzero else dlit 33 10)"
    using big by simp
  have ids: "itemId (multimeterVM1 c v a) = 71" "itemId (breadboardPart 72) = 72" for c v a
    by (simp_all add: multimeterVM1_def blankItem_def breadboardPart_def)
  have tr: "trace multimeterState = []"
    by (simp add: multimeterState_def startState_def)
  note display = updateMultimeter_display [OF ne(1) ne(2) ne(3) lasts(1) lasts(2) lasts(3) variant bb volts
      shown reading [unfolded shown [symmetric]] refl]
  have c1: "trace (snd (updateMultimeter multimeterWorld (multimeterVM1 True True True) multimeterState)) =
     [AddSimulationGraphicsItem 72 (TextItem ''  ERR''), AddSimulationGraphicsItem 71 (TextItem ''  ERR'')]"
    using display [of True True True, THEN conjunct1] by (simp add: pin_def ids tr)
  have c2: "trace (snd (updateMultimeter multimeterWorld (multimeterVM1 False False True) multimeterState)) =
     [AddSimulationGraphicsItem 72 (TextItem ''  ERR''), AddSimulationGraphicsItem 71 (TextItem ''  ERR'')]"
    using display [of False False True, THEN conjunct2, THEN conjunct1] by (simp add: pin_def ids tr)
  have c3: "trace (snd (updateMultimeter multimeterWorld (multimeterVM1 True True False) multimeterState)) =
     [VecInfo ''v(1)'', AddSimulationGraphicsItem 72 (TextItem '' 3.300''),
      AddSimulationGraphicsItem 71 (TextItem '' 3.300'')]"
    using display [of True True False, THEN conjunct2, THEN conjunct2] by (simp add: pin_def ids)
  show ?thesis
    using c1 c2 c3 by simp
qed

subsection \<open>The run of a simulation\<close>

lemma waitForSimulator_running:
  "\<forall>k < simTimeOut. isBGThreadRunning w k \<Longrightarrow> elapsedTime \<le> simTimeOut \<Longrightarrow>
   waitForSimulator w elapsedTime = simTimeOut"
proof (induction w elapsedTime rule: waitForSimulator.induct)
  case (1 w elapsedTime)
  show ?case
  proof (cases "elapsedTime < simTimeOut")
    case True
    then have "waitForSimulator w elapsedTime = waitForSimulator w (elapsedTime + 1)"
      using "1.prems" by (subst waitForSimulator.simps) simp
    also have "\<dots> = simTimeOut"
      using True "1.prems" by (intro "1.IH") auto
    finally show ?thesis .
  next
    case False
    then show ?thesis
      using "1.prems" by (subst waitForSimulator.simps) simp
  qed
qed

lemma waitForSimulator_stopped:
  "\<not> isBGThreadRunning w 0 \<Longrightarrow> waitForSimulator w 0 = 0"
  by (subst waitForSimulator.simps) simp

lemma simulateAfterWait_timeout:
  "\<forall>k < simTimeOut. isBGThreadRunning w k \<Longrightarrow>
   simulateAfterWait w s =
     (Inl (RuntimeError timeoutMessage), s\<lparr>trace := trace s @ [EngineCommand ''bg_halt'']\<rparr>)"
  by (simp add: simulateAfterWait_def waitForSimulator_running sim_simps)

lemma timeoutMessage_text:
  "timeoutMessage = ''The spice simulator did not finish after 3000 ms. Aborting simulation.''"
  by (simp add: timeoutMessage_def simTimeOut_def showInt_def showNat.simps digitChar_def)

lemma forEach_apply_Nil: "forEach [] body s = (Inr (), s)"
  by (simp add: ret_apply)

lemma forEach_apply_Cons:
  "forEach (x # xs) body s =
     (case body x s of (Inl e, s') \<Rightarrow> (Inl e, s') | (Inr u, s') \<Rightarrow> forEach xs body s')"
  by (simp add: seq_apply)

lemmas simulate_eval = simulate_def simulateLoad_def simulateAfterLoad_def buildHashes_def
  removeSimItems_def removeSimItemsOf_def greyOutNonSimParts_def greyOutParts_def
  removeItemsToBeSimulated_def removeAllItem_def sch2bbItemHashOf_def insertCounterparts_def
  connector2netHashOf_def insertNet_def sch2bb_def deref_def dynamicCast_def
  forEach_apply_Nil forEach_apply_Cons

text \<open>
  Claim C4 is not what the code does. When the thread of the engine is still running
  after 3000 waits, \<^verbatim>\<open>simulate\<close> sends \<^verbatim>\<open>bg_halt\<close> and throws the runtime error of the
  timeout, as the claim says, and no smoke or text is on the parts; but the parts that
  are not simulated were greyed out before the wait, and nothing removes the effect:
  here the part U1 stays grey in both views. The other two ways out of \<^verbatim>\<open>simulate\<close>
  after an error of the engine call \<^verbatim>\<open>removeSimItems\<close>.
\<close>

theorem simulate_timeout_leaves_grey:
  "fst (simulate timeoutWorld startState) =
     Inl (RuntimeError ''The spice simulator did not finish after 3000 ms. Aborting simulation.'') \<and>
   trace (snd (simulate timeoutWorld startState)) =
     [EngineInit, EngineClearLog, EngineCommand ''remcirc'', EngineCommand ''reset'',
      EngineClearLog, EngineLoadCircuit ''R1 1 0 220'', EngineCommand ''listing'',
      EngineCommand ''bg_run'',
      SetGraphicsEffect 21 NoEffect, RemoveSimulationGraphicsItem 21,
      SetGraphicsEffect 91 NoEffect, RemoveSimulationGraphicsItem 91,
      SetGraphicsEffect 22 NoEffect, RemoveSimulationGraphicsItem 22,
      SetGraphicsEffect 92 NoEffect, RemoveSimulationGraphicsItem 92,
      SetGraphicsEffect 91 GreyColorize, SetGraphicsEffect 92 GreyColorize,
      EngineCommand ''bg_halt''] \<and>
   greyedAfter (trace (snd (simulate timeoutWorld startState))) [] = [92, 91]"
proof -
  have run: "\<forall>k < simTimeOut. isBGThreadRunning timeoutWorld k"
    by (simp add: timeoutWorld_def idleWorld_def)
  have fields: "engineIsNull timeoutWorld = False" "initThrows timeoutWorld = False"
    "loadLogStdout timeoutWorld = []" "loadLogStderr timeoutWorld = []"
    "spiceNetlist timeoutWorld = ''R1 1 0 220''" "netList timeoutWorld = []"
    "itemBases timeoutWorld = [resistorR1]"
    "schematicItems timeoutWorld = [resistorR1, strayPart]"
    "breadboardItems timeoutWorld = [breadboardR1, breadboardU1]"
    by (simp_all add: timeoutWorld_def idleWorld_def)
  have eq: "simulate timeoutWorld startState =
     (Inl (RuntimeError ''The spice simulator did not finish after 3000 ms. Aborting simulation.''),
      startState
       \<lparr>m_connector2netHash := Map.empty,
        m_sch2bbItemHash := [21 \<mapsto> breadboardR1],
        m_instanceTitleSim := [''R1''],
        trace :=
          [EngineInit, EngineClearLog, EngineCommand ''remcirc'', EngineCommand ''reset'',
      EngineClearLog, EngineLoadCircuit ''R1 1 0 220'', EngineCommand ''listing'',
      EngineCommand ''bg_run'',
      SetGraphicsEffect 21 NoEffect, RemoveSimulationGraphicsItem 21,
      SetGraphicsEffect 91 NoEffect, RemoveSimulationGraphicsItem 91,
      SetGraphicsEffect 22 NoEffect, RemoveSimulationGraphicsItem 22,
      SetGraphicsEffect 92 NoEffect, RemoveSimulationGraphicsItem 92,
      SetGraphicsEffect 91 GreyColorize, SetGraphicsEffect 92 GreyColorize,
      EngineCommand ''bg_halt'']\<rparr>)"
    by (simp add: simulate_eval sim_simps simulateAfterWait_timeout [OF run] timeoutMessage_text
          fields startState_def resistorR1_def strayPart_def
          breadboardR1_def breadboardU1_def breadboardPart_def blankItem_def
          contains_def indexOf_def toLower_def)
  show ?thesis
    by (simp add: eq)
qed

lemma forEach_append_error:
  "forEach before body s = (Inr (), s1) \<Longrightarrow> body x s1 = (Inl e, s2) \<Longrightarrow>
   forEach (before @ x # rest) body s = (Inl e, s2)"
proof (induction before arbitrary: s)
  case Nil
  then show ?case
    by (simp add: sim_simps)
next
  case (Cons y ys)
  then show ?case
    by (auto simp: sim_simps split: prod.splits sum.splits)
qed

text \<open>
  The simulator of that run is enabled and was started, so the run is not skipped, and
  the list of the grey items at its end is not empty.
\<close>

theorem simulate_timeout_leaves_grey_witness:
  "m_enabled startState \<and> m_simulating startState \<and>
   greyedAfter (trace (snd (simulate timeoutWorld startState))) [] \<noteq> []"
  using simulate_timeout_leaves_grey by (simp add: startState_def)

text \<open>
  Claim C2, as amended. An error raised while one part is updated is not caught in
  \<^verbatim>\<open>simulate\<close>: when the engine finished in time without a fatal error, the parts
  before the failing one were updated and the update of the failing part ends with the
  error \<open>e\<close> in the state \<open>s2\<close>, then the run ends there with \<open>e\<close>, in \<open>s2\<close>. What was
  put on the earlier parts stays, and no part after the failing one is looked at.
\<close>

theorem simulate_error_ends_the_loop:
  assumes finished: "waitForSimulator w 0 < simTimeOut"
      and noError: "\<not> errorOccured w"
      and loaded: "\<not> contains (toLower (runLogStderr w)) noCircuitsLoaded"
      and parts: "itemBases w = before @ part # rest"
      and earlier: "forEach before (updatePart w) s = (Inr (), s1)"
      and failing: "updatePart w part s1 = (Inl e, s2)"
  shows "simulateAfterWait w s = (Inl e, s2)"
  using finished noError loaded
  by (simp add: simulateAfterWait_def parts forEach_append_error [OF earlier failing])

lemma updatePart_brokenLED1:
  "updatePart (twoPartsWorld parts) brokenLED1 twoPartsState =
     (Inl (DeviceTypeError ''LED1'' ''LED_GENERIC {net anode} {net cathode}''),
      twoPartsState\<lparr>trace := [SetGraphicsEffect 31 NoEffect, SetGraphicsEffect 32 NoEffect]\<rparr>)"
  by (simp add: updatePart_def updateLED_def getCurrent_def getDeviceType_def Let_def
        sch2bb_def deref_def dynamicCast_def sim_simps contains_def indexOf_def lower_eval
        brokenLED1_def ledLED1_def blankItem_def twoPartsState_def startState_def
        breadboardLED1_def breadboardPart_def)

text \<open>
  The theorem on the LED without a type code, followed by the resistor: the run ends
  with the error of \<^verbatim>\<open>getDeviceType\<close>, after the grey effect was taken off the LED.
\<close>

theorem simulate_error_ends_the_loop_witness:
  "simulateAfterWait (twoPartsWorld [brokenLED1, resistorR1]) twoPartsState =
     (Inl (DeviceTypeError ''LED1'' ''LED_GENERIC {net anode} {net cathode}''),
      twoPartsState\<lparr>trace := [SetGraphicsEffect 31 NoEffect, SetGraphicsEffect 32 NoEffect]\<rparr>)"
proof -
  let ?w = "twoPartsWorld [brokenLED1, resistorR1]"
  have fields: "isBGThreadRunning ?w = (\<lambda>k. False)" "errorOccured ?w = False"
    "runLogStderr ?w = []"
    by (simp_all add: twoPartsWorld_def idleWorld_def)
  have parts: "itemBases ?w = [] @ brokenLED1 # [resistorR1]"
    by (simp add: twoPartsWorld_def idleWorld_def)
  have finished: "waitForSimulator ?w 0 < simTimeOut"
    by (simp add: waitForSimulator_stopped fields simTimeOut_def)
  have noError: "\<not> errorOccured ?w"
    by (simp add: fields)
  have loaded: "\<not> contains (toLower (runLogStderr ?w)) noCircuitsLoaded"
    by (simp add: fields contains_def indexOf_def noCircuitsLoaded_def toLower_def)
  have earlier: "forEach [] (updatePart ?w) twoPartsState = (Inr (), twoPartsState)"
    by (simp add: ret_apply)
  show ?thesis
    using simulate_error_ends_the_loop [OF finished noError loaded parts earlier updatePart_brokenLED1] .
qed

lemma twoParts_fields:
  "engineIsNull (twoPartsWorld parts) = False" "initThrows (twoPartsWorld parts) = False"
  "loadLogStdout (twoPartsWorld parts) = []" "loadLogStderr (twoPartsWorld parts) = []"
  "spiceNetlist (twoPartsWorld parts) = ''R1 1 0 220''" "netList (twoPartsWorld parts) = []"
  "itemBases (twoPartsWorld parts) = parts"
  "schematicItems (twoPartsWorld parts) = [brokenLED1, resistorR1]"
  "breadboardItems (twoPartsWorld parts) = [breadboardLED1, breadboardR1]"
  "isBGThreadRunning (twoPartsWorld parts) = (\<lambda>k. False)" "errorOccured (twoPartsWorld parts) = False"
  "runLogStderr (twoPartsWorld parts) = []"
  "getVecInfo (twoPartsWorld parts) = (\<lambda>name. if name = ''@r1[p]'' then [dlit 3 10] else [])"
  "convertFromPowerPrefix (twoPartsWorld parts) = valueTable [(''0.25W'', dlit 25 100)]"
  by (simp_all add: twoPartsWorld_def idleWorld_def)

lemmas items_eval = brokenLED1_def ledLED1_def resistorR1_def breadboardLED1_def breadboardR1_def
  breadboardPart_def blankItem_def

text \<open>
  Claim C2 as it is written fails on that sketch: the whole of \<^verbatim>\<open>simulate\<close> ends with
  the error of the LED and the resistor gets no smoke, while the same resistor is given
  smoke when it is the only part that is simulated.
\<close>

theorem simulate_error_skips_the_rest_counterexample:
  "fst (simulate (twoPartsWorld [brokenLED1, resistorR1]) startState) =
     Inl (DeviceTypeError ''LED1'' ''LED_GENERIC {net anode} {net cathode}'') \<and>
   AddSimulationGraphicsItem 21 (SvgItem smokeImage)
     \<notin> set (trace (snd (simulate (twoPartsWorld [brokenLED1, resistorR1]) startState))) \<and>
   fst (simulate (twoPartsWorld [resistorR1]) startState) = Inr () \<and>
   AddSimulationGraphicsItem 21 (SvgItem smokeImage)
     \<in> set (trace (snd (simulate (twoPartsWorld [resistorR1]) startState)))"
proof -
  have over: "dgreater (dlit 3 10) (dlit 25 100)"
    by (simp add: double_eval)
  have wait: "waitForSimulator (twoPartsWorld parts) 0 = 0" for parts
    by (simp add: waitForSimulator_stopped twoParts_fields)
  have nl: "\<not> contains [] noCircuitsLoaded"
    by (simp add: contains_def indexOf_def noCircuitsLoaded_def)
  have a: "simulate (twoPartsWorld [brokenLED1, resistorR1]) startState =
      (Inl (DeviceTypeError ''LED1'' ''LED_GENERIC {net anode} {net cathode}''),
       startState
       \<lparr>m_connector2netHash := Map.empty,
        m_sch2bbItemHash := [31 \<mapsto> breadboardLED1, 21 \<mapsto> breadboardR1],
        m_instanceTitleSim := [''LED1'', ''R1''],
        trace :=
          [EngineInit, EngineClearLog, EngineCommand ''remcirc'', EngineCommand ''reset'',
           EngineClearLog, EngineLoadCircuit ''R1 1 0 220'', EngineCommand ''listing'',
           EngineCommand ''bg_run'',
           SetGraphicsEffect 31 NoEffect, RemoveSimulationGraphicsItem 31,
           SetGraphicsEffect 21 NoEffect, RemoveSimulationGraphicsItem 21,
           SetGraphicsEffect 32 NoEffect, RemoveSimulationGraphicsItem 32, ResetBrightness 32,
           SetGraphicsEffect 22 NoEffect, RemoveSimulationGraphicsItem 22,
           SetGraphicsEffect 31 NoEffect, SetGraphicsEffect 32 NoEffect]\<rparr>)"
    by (simp add: simulate_eval sim_simps simulateAfterWait_def wait simTimeOut_def noCircuitsLoaded_def
          twoParts_fields startState_def items_eval toLower_def contains_def indexOf_def
          updatePart_def updateLED_def getCurrent_def getDeviceType_def Let_def lower_eval)
  have b: "simulate (twoPartsWorld [resistorR1]) startState =
      (Inr (),
       startState
       \<lparr>m_connector2netHash := Map.empty,
        m_sch2bbItemHash := [21 \<mapsto> breadboardR1],
        m_instanceTitleSim := [''R1''],
        trace :=
          [EngineInit, EngineClearLog, EngineCommand ''remcirc'', EngineCommand ''reset'',
           EngineClearLog, EngineLoadCircuit ''R1 1 0 220'', EngineCommand ''listing'',
           EngineCommand ''bg_run'',
           SetGraphicsEffect 31 NoEffect, RemoveSimulationGraphicsItem 31,
           SetGraphicsEffect 21 NoEffect, RemoveSimulationGraphicsItem 21,
           SetGraphicsEffect 32 NoEffect, RemoveSimulationGraphicsItem 32, ResetBrightness 32,
           SetGraphicsEffect 22 NoEffect, RemoveSimulationGraphicsItem 22,
           SetGraphicsEffect 31 GreyColorize, SetGraphicsEffect 32 GreyColorize,
           SetGraphicsEffect 21 NoEffect, SetGraphicsEffect 22 NoEffect,
           VecInfo ''@r1[p]'',
           AddSimulationGraphicsItem 21 (SvgItem smokeImage),
           AddSimulationGraphicsItem 22 (SvgItem smokeImage)]\<rparr>)"
    by (simp add: simulate_eval sim_simps simulateAfterWait_def wait simTimeOut_def noCircuitsLoaded_def
          twoParts_fields startState_def items_eval toLower_def contains_def indexOf_def
          updatePart_def updateResistor_def getPower_def getVectorValueOrDefault_apply
          getMaxPropValue_def getSymbol_def valueTable_def drawSmoke_apply Let_def lower_eval over)
  show ?thesis
    by (simp add: a b)
qed

end
